theory Spec2Isabelle
  imports Complex_Main "HOL-Library.Word"
begin

unbundle bit_operations_syntax

section \<open>Conventions of the embedding\<close>

text \<open>
  The development embeds \<^verbatim>\<open>src/main.py\<close>. Python \<^verbatim>\<open>str\<close> values are
  modelled as \<open>string\<close> (a list of 8-bit characters, read as ASCII text), Python
  \<^verbatim>\<open>int\<close> as \<open>int\<close> or \<open>nat\<close> where the value is a count, and Python
  \<^verbatim>\<open>float\<close> as \<open>real\<close>: arithmetic on scores and latencies is exact, so
  rounding of binary floating point is outside the model.
\<close>

section \<open>String primitives of Python used by the service\<close>

text \<open>\<^verbatim>\<open>str.isspace\<close> on one ASCII character: tab, line feed, vertical tab,
  form feed, carriage return, the four separators 0x1c..0x1f and the space.\<close>

definition is_space :: "char \<Rightarrow> bool" where
  "is_space c = (let n = (of_char c :: nat) in (9 \<le> n \<and> n \<le> 13) \<or> (28 \<le> n \<and> n \<le> 32))"

text \<open>\<^verbatim>\<open>\d\<close> and \<^verbatim>\<open>str.isdigit\<close> on one ASCII character.\<close>

definition is_digit :: "char \<Rightarrow> bool" where
  "is_digit c = (let n = (of_char c :: nat) in 48 \<le> n \<and> n \<le> 57)"

text \<open>\<^verbatim>\<open>str.lower()\<close>: the letters A..Z move to a..z, every other
  character stays.\<close>

definition lower_char :: "char \<Rightarrow> char" where
  "lower_char c = (let n = (of_char c :: nat) in if 65 \<le> n \<and> n \<le> 90 then char_of (n + 32) else c)"

definition lower :: "string \<Rightarrow> string" where
  "lower s = map lower_char s"

text \<open>\<^verbatim>\<open>text.startswith(word)\<close>.\<close>

fun startswith :: "string \<Rightarrow> string \<Rightarrow> bool" where
  "startswith s [] = True"
| "startswith [] (w # ws) = False"
| "startswith (c # cs) (w # ws) = (c = w \<and> startswith cs ws)"

text \<open>\<^verbatim>\<open>word in text\<close>: \<open>word\<close> occurs in \<open>text\<close> as a contiguous
  substring.\<close>

fun py_in :: "string \<Rightarrow> string \<Rightarrow> bool" where
  "py_in word [] = (word = [])"
| "py_in word (c # cs) = (startswith (c # cs) word \<or> py_in word cs)"

text \<open>\<^verbatim>\<open>text.split()\<close> with no argument: the maximal runs of non-whitespace
  characters, in order; \<open>split_acc\<close> carries the run being read, reversed.\<close>

fun split_acc :: "string \<Rightarrow> string \<Rightarrow> string list" where
  "split_acc acc [] = (if acc = [] then [] else [rev acc])"
| "split_acc acc (c # cs) =
     (if is_space c then (if acc = [] then split_acc [] cs else rev acc # split_acc [] cs)
      else split_acc (c # acc) cs)"

definition split :: "string \<Rightarrow> string list" where
  "split s = split_acc [] s"

text \<open>\<^verbatim>\<open>text.strip()\<close>: leading and trailing whitespace removed.\<close>

definition strip :: "string \<Rightarrow> string" where
  "strip s = rev (dropWhile is_space (rev (dropWhile is_space s)))"

section \<open>The hallucination risk heuristic\<close>

text \<open>The fixed vocabulary of \<^verbatim>\<open>calculate_hallucination_risk\<close>.\<close>

definition hedging_words :: "string list" where
  "hedging_words = [''might'', ''possibly'', ''perhaps'', ''maybe'', ''i think'',
                    ''could be'', ''it seems'', ''likely'', ''probably'']"

text \<open>\<^verbatim>\<open>sum(1 for word in hedging_words if word in text_lower)\<close>, with
  \<^verbatim>\<open>text_lower = response_text.lower()\<close>.\<close>

definition hedging_count :: "string \<Rightarrow> nat" where
  "hedging_count response_text =
     (let text_lower = lower response_text
      in length (filter (\<lambda>word. py_in word text_lower) hedging_words))"

text \<open>\<^verbatim>\<open>len(response_text.split()) / max(len(prompt.split()), 1)\<close>.\<close>

definition verbosity_ratio :: "string \<Rightarrow> string \<Rightarrow> real" where
  "verbosity_ratio response_text prompt =
     (let response_length = length (split response_text);
          prompt_length = length (split prompt)
      in real response_length / real (max prompt_length 1))"

text \<open>The function itself: the three weighted factors are added to
  \<open>risk_score\<close> in the order of the source, and the sum is capped at 1.\<close>

definition calculate_hallucination_risk :: "string \<Rightarrow> string \<Rightarrow> real \<Rightarrow> real" where
  "calculate_hallucination_risk response_text prompt confidence =
     (let risk_score0 = 0;
          confidence_risk = 1 - confidence;
          risk_score1 = risk_score0 + confidence_risk * (4 / 10);
          hedging_risk = min (real (hedging_count response_text) / 5) 1;
          risk_score2 = risk_score1 + hedging_risk * (3 / 10);
          verbosity_risk = min (verbosity_ratio response_text prompt / 50) 1;
          risk_score3 = risk_score2 + verbosity_risk * (3 / 10)
      in min risk_score3 1)"

section \<open>Exceptions and JSON values\<close>

text \<open>The exceptions the handler can meet, each with the message that
  \<^verbatim>\<open>str(e)\<close> returns. \<open>ServiceError\<close> stands for whatever the model SDK, the
  Datadog client or the network raises.\<close>

datatype error = AttributeError string | KeyError string | ValueError string
  | TypeError string | HTTPException string | ServiceError string

fun str_error :: "error \<Rightarrow> string" where
  "str_error (AttributeError m) = m"
| "str_error (KeyError k) = [CHR 0x27] @ k @ [CHR 0x27]"
| "str_error (ValueError m) = m"
| "str_error (TypeError m) = m"
| "str_error (HTTPException m) = m"
| "str_error (ServiceError m) = m"

text \<open>Values that \<^verbatim>\<open>request.get_json()\<close> can return and that
  \<^verbatim>\<open>jsonify\<close> can send: \<open>JNull\<close> is \<^verbatim>\<open>None\<close>, \<open>JDict\<close> a
  \<^verbatim>\<open>dict\<close> with its items in order.\<close>

datatype json = JNull | JBool bool | JInt int | JFloat real | JStr string
  | JList "json list" | JDict "(string \<times> json) list"

text \<open>Truth value of a Python object, as \<^verbatim>\<open>if not prompt\<close> reads it.\<close>

fun truthy :: "json \<Rightarrow> bool" where
  "truthy JNull = False"
| "truthy (JBool b) = b"
| "truthy (JInt i) = (i \<noteq> 0)"
| "truthy (JFloat x) = (x \<noteq> 0)"
| "truthy (JStr s) = (s \<noteq> [])"
| "truthy (JList xs) = (xs \<noteq> [])"
| "truthy (JDict kvs) = (kvs \<noteq> [])"

fun type_name :: "json \<Rightarrow> string" where
  "type_name JNull = ''NoneType''"
| "type_name (JBool b) = ''bool''"
| "type_name (JInt i) = ''int''"
| "type_name (JFloat x) = ''float''"
| "type_name (JStr s) = ''str''"
| "type_name (JList xs) = ''list''"
| "type_name (JDict kvs) = ''dict''"


text \<open>The message of the \<^verbatim>\<open>AttributeError\<close> raised when a method is
  looked up on an object that lacks it.\<close>

definition no_attribute :: "json \<Rightarrow> string \<Rightarrow> error" where
  "no_attribute v name =
     AttributeError ([CHR 0x27] @ type_name v @ [CHR 0x27] @ '' object has no attribute ''
                     @ [CHR 0x27] @ name @ [CHR 0x27])"

text \<open>\<^verbatim>\<open>data.get(key, default)\<close>: only a dict has the method.\<close>

definition py_get :: "json \<Rightarrow> string \<Rightarrow> json \<Rightarrow> error + json" where
  "py_get data key dflt =
     (case data of
        JDict kvs \<Rightarrow> Inr (case map_of kvs key of Some v \<Rightarrow> v | None \<Rightarrow> dflt)
      | _ \<Rightarrow> Inl (no_attribute data ''get''))"

text \<open>\<^verbatim>\<open>d[key]\<close> and \<^verbatim>\<open>d.get(key, default)\<close> on a dict built by the
  handler itself.\<close>

definition dict_index :: "(string \<times> json) list \<Rightarrow> string \<Rightarrow> error + json" where
  "dict_index d key = (case map_of d key of Some v \<Rightarrow> Inr v | None \<Rightarrow> Inl (KeyError key))"

definition dict_get :: "(string \<times> json) list \<Rightarrow> string \<Rightarrow> json \<Rightarrow> json" where
  "dict_get d key dflt = (case map_of d key of Some v \<Rightarrow> v | None \<Rightarrow> dflt)"

text \<open>Sequencing of two steps of which the first may raise.\<close>

definition bind_err :: "error + 'a \<Rightarrow> ('a \<Rightarrow> error + 'b) \<Rightarrow> error + 'b" where
  "bind_err r f = (case r of Inl e \<Rightarrow> Inl e | Inr x \<Rightarrow> f x)"

section \<open>Parsing the confidence out of the model's reply\<close>

text \<open>
  \<^verbatim>\<open>re.search(r'0?\.\d+|1\.0|0|1', confidence_text)\<close>. The search tries the start
  positions from left to right and, at each one, the four alternatives in the order
  written; the first success is the match.

  \<open>dot_digits\<close> is \<^verbatim>\<open>\.\d+\<close>: a dot and the longest non-empty run of digits.
  \<open>alt_decimal\<close> is \<^verbatim>\<open>0?\.\d+\<close>: the greedy \<^verbatim>\<open>0?\<close> first takes a leading
  zero, and gives it back when the rest fails.
\<close>

definition dot_digits :: "string \<Rightarrow> string option" where
  "dot_digits s =
     (case s of
        [] \<Rightarrow> None
      | c # rest \<Rightarrow>
          if c = CHR ''.'' \<and> takeWhile is_digit rest \<noteq> []
          then Some (c # takeWhile is_digit rest) else None)"

definition alt_decimal :: "string \<Rightarrow> string option" where
  "alt_decimal s =
     (case (if startswith s ''0'' then map_option (\<lambda>m. CHR ''0'' # m) (dot_digits (tl s))
            else None) of
        Some m \<Rightarrow> Some m
      | None \<Rightarrow> dot_digits s)"

definition alt_literal :: "string \<Rightarrow> string \<Rightarrow> string option" where
  "alt_literal lit s = (if startswith s lit then Some lit else None)"

definition match_here :: "string \<Rightarrow> string option" where
  "match_here s =
     (case alt_decimal s of Some m \<Rightarrow> Some m | None \<Rightarrow>
      (case alt_literal ''1.0'' s of Some m \<Rightarrow> Some m | None \<Rightarrow>
      (case alt_literal ''0'' s of Some m \<Rightarrow> Some m | None \<Rightarrow>
       alt_literal ''1'' s)))"

fun re_search :: "string \<Rightarrow> string option" where
  "re_search [] = match_here []"
| "re_search (c # cs) =
     (case match_here (c # cs) of Some m \<Rightarrow> Some m | None \<Rightarrow> re_search cs)"

text \<open>
  \<^verbatim>\<open>float(match.group())\<close> on an unsigned decimal literal: digits, optionally a
  dot and more digits, with a digit on at least one side. Any other string is
  answered with \<^verbatim>\<open>ValueError\<close>; the matches of the pattern above never are.
\<close>

definition digit_value :: "char \<Rightarrow> nat" where
  "digit_value c = of_char c - 48"

definition decimal :: "string \<Rightarrow> nat" where
  "decimal ds = foldl (\<lambda>n c. 10 * n + digit_value c) 0 ds"

definition py_float :: "string \<Rightarrow> error + real" where
  "py_float s =
     (let whole = takeWhile is_digit s; rest = dropWhile is_digit s
      in if rest = [] then
           (if whole = [] then Inl (ValueError ''could not convert string to float'')
            else Inr (real (decimal whole)))
         else if hd rest = CHR ''.'' \<and> list_all is_digit (tl rest)
                 \<and> (whole \<noteq> [] \<or> tl rest \<noteq> [])
           then Inr (real (decimal whole) + real (decimal (tl rest)) / 10 ^ length (tl rest))
         else Inl (ValueError ''could not convert string to float''))"


section \<open>SHA-256 and the prompt hash\<close>

text \<open>
  \<^verbatim>\<open>hashlib.sha256\<close> as FIPS 180-4 specifies it, on 32-bit words: the message is
  padded to whole 64-byte blocks, each block is expanded to a 64-word schedule and
  folded into the eight-word state by 64 rounds.
\<close>

type_synonym u32 = "32 word"
type_synonym byte = "8 word"

definition rotr :: "nat \<Rightarrow> u32 \<Rightarrow> u32" where
  "rotr n x = drop_bit n x OR push_bit (32 - n) x"

definition Ch :: "u32 \<Rightarrow> u32 \<Rightarrow> u32 \<Rightarrow> u32" where
  "Ch x y z = (x AND y) XOR (NOT x AND z)"

definition Maj :: "u32 \<Rightarrow> u32 \<Rightarrow> u32 \<Rightarrow> u32" where
  "Maj x y z = (x AND y) XOR (x AND z) XOR (y AND z)"

definition big_sigma0 :: "u32 \<Rightarrow> u32" where
  "big_sigma0 x = rotr 2 x XOR rotr 13 x XOR rotr 22 x"

definition big_sigma1 :: "u32 \<Rightarrow> u32" where
  "big_sigma1 x = rotr 6 x XOR rotr 11 x XOR rotr 25 x"

definition small_sigma0 :: "u32 \<Rightarrow> u32" where
  "small_sigma0 x = rotr 7 x XOR rotr 18 x XOR drop_bit 3 x"

definition small_sigma1 :: "u32 \<Rightarrow> u32" where
  "small_sigma1 x = rotr 17 x XOR rotr 19 x XOR drop_bit 10 x"

text \<open>The 64 round constants (the first 32 bits of the fractional parts of the cube
  roots of the first 64 primes) and the initial state (the same of the square roots
  of the first 8 primes), in decimal.\<close>

definition sha256_k :: "u32 list" where
  "sha256_k =
   [1116352408, 1899447441, 3049323471, 3921009573, 961987163, 1508970993, 2453635748, 2870763221,
    3624381080, 310598401, 607225278, 1426881987, 1925078388, 2162078206, 2614888103, 3248222580,
    3835390401, 4022224774, 264347078, 604807628, 770255983, 1249150122, 1555081692, 1996064986,
    2554220882, 2821834349, 2952996808, 3210313671, 3336571891, 3584528711, 113926993, 338241895,
    666307205, 773529912, 1294757372, 1396182291, 1695183700, 1986661051, 2177026350, 2456956037,
    2730485921, 2820302411, 3259730800, 3345764771, 3516065817, 3600352804, 4094571909, 275423344,
    430227734, 506948616, 659060556, 883997877, 958139571, 1322822218, 1537002063, 1747873779,
    1955562222, 2024104815, 2227730452, 2361852424, 2428436474, 2756734187, 3204031479, 3329325298]"

type_synonym hash_state = "u32 \<times> u32 \<times> u32 \<times> u32 \<times> u32 \<times> u32 \<times> u32 \<times> u32"

definition sha256_init :: hash_state where
  "sha256_init = (1779033703, 3144134277, 1013904242, 2773480762,
                  1359893119, 2600822924, 528734635, 1541459225)"

definition pad :: "byte list \<Rightarrow> byte list" where
  "pad msg =
     (let l = length msg;
          k = (119 - l mod 64) mod 64;
          bits = (8 * word_of_nat l :: 64 word)
      in msg @ [0x80] @ replicate k 0
           @ map (\<lambda>i. ucast (drop_bit (8 * i) bits)) [7, 6, 5, 4, 3, 2, 1, 0])"

fun be_words :: "byte list \<Rightarrow> u32 list" where
  "be_words (b0 # b1 # b2 # b3 # rest) =
     (push_bit 24 (ucast b0) OR push_bit 16 (ucast b1) OR push_bit 8 (ucast b2) OR ucast b3)
       # be_words rest"
| "be_words _ = []"

fun chunks :: "nat \<Rightarrow> 'a list \<Rightarrow> 'a list list" where
  "chunks n [] = []"
| "chunks n (x # xs) =
     (if n = 0 then [] else take n (x # xs) # chunks n (drop n (x # xs)))"

fun schedule :: "nat \<Rightarrow> u32 list \<Rightarrow> u32 list" where
  "schedule 0 w = w"
| "schedule (Suc n) w =
     (let t = length w
      in schedule n (w @ [small_sigma1 (w ! (t - 2)) + w ! (t - 7)
                           + small_sigma0 (w ! (t - 15)) + w ! (t - 16)]))"

definition round_step :: "hash_state \<Rightarrow> u32 \<times> u32 \<Rightarrow> hash_state" where
  "round_step s kw =
     (case s of (a, b, c, d, e, f, g, h) \<Rightarrow>
        let t1 = h + big_sigma1 e + Ch e f g + fst kw + snd kw;
            t2 = big_sigma0 a + Maj a b c
        in (t1 + t2, a, b, c, d + t1, e, f, g))"

definition add_state :: "hash_state \<Rightarrow> hash_state \<Rightarrow> hash_state" where
  "add_state s t =
     (case s of (a, b, c, d, e, f, g, h) \<Rightarrow>
      case t of (a', b', c', d', e', f', g', h') \<Rightarrow>
        (a + a', b + b', c + c', d + d', e + e', f + f', g + g', h + h'))"

definition compress :: "hash_state \<Rightarrow> u32 list \<Rightarrow> hash_state" where
  "compress s block = add_state s (foldl round_step s (zip sha256_k (schedule 48 block)))"

definition sha256 :: "byte list \<Rightarrow> hash_state" where
  "sha256 msg = foldl compress sha256_init (chunks 16 (be_words (pad msg)))"

definition hex_digit :: "nat \<Rightarrow> char" where
  "hex_digit n = ''0123456789abcdef'' ! (n mod 16)"

definition hex_word :: "u32 \<Rightarrow> string" where
  "hex_word w = map (\<lambda>i. hex_digit (unat (drop_bit (4 * i) w AND 15))) [7, 6, 5, 4, 3, 2, 1, 0]"

fun state_words :: "hash_state \<Rightarrow> u32 list" where
  "state_words (a, b, c, d, e, f, g, h) = [a, b, c, d, e, f, g, h]"

definition hexdigest :: "hash_state \<Rightarrow> string" where
  "hexdigest s = concat (map hex_word (state_words s))"

text \<open>\<^verbatim>\<open>prompt.encode()\<close>: a string of the model is its own UTF-8 byte
  sequence.\<close>

definition encode :: "string \<Rightarrow> byte list" where
  "encode s = map (\<lambda>c. of_char c) s"

text \<open>\<^verbatim>\<open>hashlib.sha256(prompt.encode()).hexdigest()[:16]\<close>.\<close>

definition hash_prompt :: "string \<Rightarrow> string" where
  "hash_prompt prompt = take 16 (hexdigest (sha256 (encode prompt)))"



section \<open>Telemetry records of the Datadog client\<close>

text \<open>The objects of \<^verbatim>\<open>datadog_api_client\<close> that the service builds:
  \<^verbatim>\<open>MetricPoint\<close>, \<^verbatim>\<open>MetricResource\<close>, \<^verbatim>\<open>MetricSeries\<close> (a
  \<^verbatim>\<open>MetricPayload\<close> is a list of series) and \<^verbatim>\<open>HTTPLogItem\<close>, whose extra
  keyword arguments are kept as \<open>log_attributes\<close>.\<close>

datatype metric_intake_type = UNSPECIFIED | COUNT | RATE | GAUGE

record metric_point =
  mp_timestamp :: int
  mp_value :: json

record metric_resource =
  mr_name :: string
  mr_type :: string

record metric_series =
  ms_metric :: string
  ms_type :: metric_intake_type
  ms_points :: "metric_point list"
  ms_resources :: "metric_resource list"
  ms_tags :: "string list"

record http_log_item =
  log_ddsource :: string
  log_ddtags :: string
  log_hostname :: string
  log_message :: string
  log_service :: string
  log_attributes :: "(string \<times> json) list"

section \<open>The environment of one request\<close>

text \<open>What \<^verbatim>\<open>model.generate_content\<close> returns: the \<^verbatim>\<open>text\<close> property,
  which may raise when read, and \<^verbatim>\<open>usage_metadata.total_token_count\<close> when the
  attribute exists.\<close>

record model_response =
  resp_text :: "error + string"
  usage_metadata :: "int option"

text \<open>Everything outside the handler that one request depends on: the value of
  \<^verbatim>\<open>uuid.uuid4()\<close>, the successive readings of \<^verbatim>\<open>time.time()\<close>, the outcome
  of \<^verbatim>\<open>request.get_json()\<close>, the model, the two Datadog endpoints (\<open>None\<close> is a
  successful submission), \<^verbatim>\<open>str()\<close> on values that are not strings, and the
  configuration read at start-up.\<close>

record env =
  uuid4 :: string
  clock_reading :: "nat \<Rightarrow> real"
  request_json :: "error + json"
  model_generate :: "json \<Rightarrow> error + model_response"
  sink_metrics :: "metric_series list \<Rightarrow> error option"
  sink_logs :: "http_log_item list \<Rightarrow> error option"
  py_str :: "json \<Rightarrow> string"
  MODEL_NAME :: string
  ENVIRONMENT :: string

definition SERVICE_NAME :: string where
  "SERVICE_NAME = ''llm-observability-service''"

text \<open>The effects of a request, in order: calls of the model, payloads handed to the
  metrics and log endpoints, and lines printed to the operational channel. \<open>clock\<close>
  counts the readings of \<^verbatim>\<open>time.time()\<close> taken so far.\<close>

datatype event = ModelCall json | SubmitMetrics "metric_series list"
  | SubmitLog "http_log_item list" | Print string

record world =
  clock :: nat
  trace :: "event list"

definition time_time :: "env \<Rightarrow> world \<Rightarrow> real \<times> world" where
  "time_time env w = (clock_reading env (clock w), w\<lparr>clock := Suc (clock w)\<rparr>)"

definition emit :: "event \<Rightarrow> world \<Rightarrow> world" where
  "emit ev w = w\<lparr>trace := trace w @ [ev]\<rparr>"

definition generate_content :: "env \<Rightarrow> json \<Rightarrow> world \<Rightarrow> (error + model_response) \<times> world" where
  "generate_content env contents w = (model_generate env contents, emit (ModelCall contents) w)"

text \<open>A value interpolated into an f-string.\<close>

definition fmt :: "env \<Rightarrow> json \<Rightarrow> string" where
  "fmt env v = (case v of JStr s \<Rightarrow> s | _ \<Rightarrow> py_str env v)"

text \<open>\<^verbatim>\<open>int(x)\<close> truncates towards zero; \<^verbatim>\<open>round(x, ndigits)\<close> rounds to the
  nearest multiple of \<open>10 ^ - ndigits\<close>, a tie going to the even neighbour.\<close>

definition py_int :: "real \<Rightarrow> int" where
  "py_int x = (if 0 \<le> x then \<lfloor>x\<rfloor> else \<lceil>x\<rceil>)"

definition round_half_even :: "real \<Rightarrow> int" where
  "round_half_even x =
     (let f = \<lfloor>x\<rfloor>; d = x - of_int f
      in if d < 1 / 2 then f else if 1 / 2 < d then f + 1 else if even f then f else f + 1)"

definition py_round :: "real \<Rightarrow> nat \<Rightarrow> real" where
  "py_round x ndigits = of_int (round_half_even (x * 10 ^ ndigits)) / 10 ^ ndigits"

section \<open>Self-confidence elicitation\<close>

text \<open>\<^verbatim>\<open>get_self_confidence\<close>: \<open>parse_confidence\<close> is the body of the
  \<^verbatim>\<open>try\<close> after the call of the model, and the \<^verbatim>\<open>except Exception\<close> clause turns
  every error into the default 0.5 and a printed line.\<close>

definition confidence_prompt :: "env \<Rightarrow> json \<Rightarrow> string \<Rightarrow> string" where
  "confidence_prompt env original_prompt original_response =
     ''You previously answered this question:\<newline>Question: '' @ fmt env original_prompt
     @ ''\<newline>Your answer: '' @ original_response
     @ ''\<newline>\<newline>On a scale from 0.0 to 1.0, how confident are you that your answer is accurate and complete?''
     @ ''\<newline>Respond with ONLY a number between 0.0 and 1.0, nothing else.''"

definition parse_confidence :: "error + model_response \<Rightarrow> error + real" where
  "parse_confidence r =
     bind_err r (\<lambda>response.
     bind_err (resp_text response) (\<lambda>t.
       let confidence_text = strip t
       in case re_search confidence_text of
            Some m \<Rightarrow> py_float m
          | None \<Rightarrow> Inr (1 / 2)))"

definition get_self_confidence :: "env \<Rightarrow> json \<Rightarrow> string \<Rightarrow> world \<Rightarrow> real \<times> world" where
  "get_self_confidence env original_prompt original_response w =
     (let (r, w1) = generate_content env
                      (JStr (confidence_prompt env original_prompt original_response)) w
      in case parse_confidence r of
           Inr c \<Rightarrow> (c, w1)
         | Inl e \<Rightarrow> (1 / 2, emit (Print (''Error getting self-confidence: '' @ str_error e)) w1))"

text \<open>The model's answer to the follow-up question of
  \<^verbatim>\<open>get_self_confidence\<close>.\<close>

definition confidence_reply :: "env \<Rightarrow> json \<Rightarrow> string \<Rightarrow> error + model_response" where
  "confidence_reply env original_prompt original_response =
     model_generate env (JStr (confidence_prompt env original_prompt original_response))"

section \<open>Telemetry dispatch\<close>

text \<open>\<^verbatim>\<open>send_metrics_to_datadog\<close>: the timestamp is read first, then the tags and
  the five values are looked up (a missing key raises \<^verbatim>\<open>KeyError\<close>), then the
  payload is submitted; whatever is raised is printed and dropped.\<close>

definition series_of :: "string list \<Rightarrow> int \<Rightarrow> string \<times> json \<Rightarrow> metric_series" where
  "series_of tags timestamp nv =
     \<lparr>ms_metric = fst nv, ms_type = UNSPECIFIED,
      ms_points = [\<lparr>mp_timestamp = timestamp, mp_value = snd nv\<rparr>],
      ms_resources = [\<lparr>mr_name = SERVICE_NAME, mr_type = ''service''\<rparr>],
      ms_tags = tags\<rparr>"

definition metrics_payload :: "env \<Rightarrow> int \<Rightarrow> (string \<times> json) list \<Rightarrow> error + metric_series list" where
  "metrics_payload env timestamp metrics_data =
     bind_err (dict_index metrics_data ''model_name'') (\<lambda>model_name.
     let tags = [''model_name:'' @ fmt env model_name, ''service:'' @ SERVICE_NAME,
                 ''env:'' @ ENVIRONMENT env]
     in bind_err (dict_index metrics_data ''latency_ms'') (\<lambda>latency_ms.
        bind_err (dict_index metrics_data ''self_confidence'') (\<lambda>self_confidence.
        bind_err (dict_index metrics_data ''hallucination_risk'') (\<lambda>hallucination_risk.
        bind_err (dict_index metrics_data ''answer_length'') (\<lambda>answer_length.
        let token_count = dict_get metrics_data ''token_count'' (JInt 0)
        in Inr (map (series_of tags timestamp)
                  [(''llm.request.latency_ms'', latency_ms),
                   (''llm.self_confidence'', self_confidence),
                   (''llm.hallucination_risk'', hallucination_risk),
                   (''llm.answer_length'', answer_length),
                   (''llm.token.count'', token_count)]))))))"

definition send_metrics_to_datadog :: "env \<Rightarrow> (string \<times> json) list \<Rightarrow> world \<Rightarrow> world" where
  "send_metrics_to_datadog env metrics_data w =
     (let (t, w1) = time_time env w
      in case metrics_payload env (py_int t) metrics_data of
           Inl e \<Rightarrow> emit (Print (''Error sending metrics to Datadog: '' @ str_error e)) w1
         | Inr payload \<Rightarrow>
             let w2 = emit (SubmitMetrics payload) w1
             in (case sink_metrics env payload of
                   None \<Rightarrow> w2
                 | Some e \<Rightarrow> emit (Print (''Error sending metrics to Datadog: '' @ str_error e)) w2))"

text \<open>\<^verbatim>\<open>send_logs_to_datadog\<close>: \<open>is_number\<close> is
  \<^verbatim>\<open>isinstance(value, (int, float))\<close> (a \<^verbatim>\<open>bool\<close> is an \<^verbatim>\<open>int\<close>); a key of
  \<open>log_data\<close> that repeats a named argument of \<^verbatim>\<open>HTTPLogItem\<close> raises
  \<^verbatim>\<open>TypeError\<close> inside the \<^verbatim>\<open>try\<close>.\<close>

fun is_number :: "json \<Rightarrow> bool" where
  "is_number (JInt i) = True"
| "is_number (JFloat x) = True"
| "is_number (JBool b) = True"
| "is_number _ = False"

definition log_item_arguments :: "string list" where
  "log_item_arguments = [''ddsource'', ''ddtags'', ''hostname'', ''message'', ''service'']"

definition log_item :: "env \<Rightarrow> (string \<times> json) list \<Rightarrow> http_log_item" where
  "log_item env log_data =
     (let log_data_str =
            map (\<lambda>(key, v). (key, if is_number v then JStr (py_str env v) else v)) log_data
      in \<lparr>log_ddsource = ''llm-observability'',
          log_ddtags = ''env:'' @ ENVIRONMENT env @ '',service:'' @ SERVICE_NAME,
          log_hostname = SERVICE_NAME,
          log_message = ''LLM request completed: request_id=''
                        @ fmt env (dict_get log_data ''request_id'' (JStr ''unknown'')),
          log_service = SERVICE_NAME,
          log_attributes = log_data_str\<rparr>)"

definition send_logs_to_datadog :: "env \<Rightarrow> (string \<times> json) list \<Rightarrow> world \<Rightarrow> world" where
  "send_logs_to_datadog env log_data w =
     (if list_ex (\<lambda>key. key \<in> set log_item_arguments) (map fst log_data)
      then emit (Print (''Error sending logs to Datadog: ''
                        @ str_error (TypeError ''got multiple values for keyword argument''))) w
      else
        let body = [log_item env log_data];
            w1 = emit (SubmitLog body) w
        in case sink_logs env body of
             None \<Rightarrow> w1
           | Some e \<Rightarrow> emit (Print (''Error sending logs to Datadog: '' @ str_error e)) w1)"

section \<open>The chat handler\<close>

text \<open>A response is the JSON body and the status code. \<open>chat_respond\<close> is the part of
  the \<^verbatim>\<open>try\<close> block from "Calculate metrics" to the \<^verbatim>\<open>return\<close>, \<open>chat_try\<close> the
  block up to there, \<open>chat_except\<close> the \<^verbatim>\<open>except Exception\<close> clause. The dict
  literals of the handler (\<open>metrics_data\<close>, \<open>log_data\<close>, \<open>error_data\<close>, the three
  response bodies and the error metric) are definitions of their own. A prompt that
  is not a \<^verbatim>\<open>str\<close> reaches \<^verbatim>\<open>prompt.split()\<close> in
  \<^verbatim>\<open>calculate_hallucination_risk\<close>, which raises \<^verbatim>\<open>AttributeError\<close>.\<close>

type_synonym http_response = "json \<times> nat"

definition success_metrics_data ::
  "env \<Rightarrow> real \<Rightarrow> real \<Rightarrow> real \<Rightarrow> int \<Rightarrow> int \<Rightarrow> (string \<times> json) list" where
  "success_metrics_data env latency_ms confidence_score hallucination_risk answer_length
       token_count =
     [(''model_name'', JStr (MODEL_NAME env)),
      (''latency_ms'', JFloat latency_ms),
      (''self_confidence'', JFloat confidence_score),
      (''hallucination_risk'', JFloat hallucination_risk),
      (''answer_length'', JInt answer_length),
      (''token_count'', JInt token_count)]"

definition success_log_data ::
  "env \<Rightarrow> string \<Rightarrow> string \<Rightarrow> real \<Rightarrow> real \<Rightarrow> real \<Rightarrow> int \<Rightarrow> (string \<times> json) list" where
  "success_log_data env request_id prompt latency_ms hallucination_risk confidence_score
       answer_length =
     [(''request_id'', JStr request_id),
      (''prompt_hash'', JStr (hash_prompt prompt)),
      (''model_name'', JStr (MODEL_NAME env)),
      (''latency_ms'', JFloat latency_ms),
      (''hallucination_risk'', JFloat hallucination_risk),
      (''self_confidence'', JFloat confidence_score),
      (''answer_length'', JInt answer_length),
      (''status'', JStr ''success'')]"

definition success_envelope :: "env \<Rightarrow> string \<Rightarrow> string \<Rightarrow> real \<Rightarrow> real \<Rightarrow> real \<Rightarrow> json" where
  "success_envelope env request_id response_text elapsed_ms confidence_score hallucination_risk =
     JDict
       [(''request_id'', JStr request_id),
        (''response'', JStr response_text),
        (''metadata'', JDict
          [(''latency_ms'', JFloat (py_round elapsed_ms 2)),
           (''confidence'', JFloat (py_round confidence_score 3)),
           (''hallucination_risk'', JFloat (py_round hallucination_risk 3)),
           (''model'', JStr (MODEL_NAME env))])]"

definition chat_respond ::
  "env \<Rightarrow> string \<Rightarrow> real \<Rightarrow> string \<Rightarrow> model_response \<Rightarrow> string \<Rightarrow> real \<Rightarrow> real \<Rightarrow> real \<Rightarrow> real
   \<Rightarrow> world \<Rightarrow> http_response \<times> world" where
  "chat_respond env request_id start_time prompt response response_text confidence_score
       hallucination_risk llm_start llm_end w =
     (let latency_ms = (llm_end - llm_start) * 1000;
          answer_length = int (length (split response_text));
          token_count = (case usage_metadata response of Some n \<Rightarrow> n | None \<Rightarrow> 0);
          metrics_data = success_metrics_data env latency_ms confidence_score hallucination_risk
                           answer_length token_count;
          log_data = success_log_data env request_id prompt latency_ms hallucination_risk
                       confidence_score answer_length;
          w1 = send_metrics_to_datadog env metrics_data w;
          w2 = send_logs_to_datadog env log_data w1;
          (end_time, w3) = time_time env w2
      in ((success_envelope env request_id response_text ((end_time - start_time) * 1000)
             confidence_score hallucination_risk, 200), w3))"

definition input_error :: json where
  "input_error = JDict [(''error'', JStr ''prompt is required'')]"

definition chat_try :: "env \<Rightarrow> string \<Rightarrow> real \<Rightarrow> world \<Rightarrow> (error + http_response) \<times> world" where
  "chat_try env request_id start_time w =
     (case request_json env of
        Inl e \<Rightarrow> (Inl e, w)
      | Inr data \<Rightarrow>
     (case py_get data ''prompt'' (JStr []) of
        Inl e \<Rightarrow> (Inl e, w)
      | Inr prompt \<Rightarrow>
          if \<not> truthy prompt
          then (Inr (input_error, 400), w)
          else
            let (llm_start, w1) = time_time env w;
                (generated, w2) = generate_content env prompt w1
            in (case generated of
                  Inl e \<Rightarrow> (Inl e, w2)
                | Inr response \<Rightarrow>
                    let (llm_end, w3) = time_time env w2
                    in (case resp_text response of
                          Inl e \<Rightarrow> (Inl e, w3)
                        | Inr response_text \<Rightarrow>
                            let (confidence_score, w4) =
                                  get_self_confidence env prompt response_text w3
                            in (case prompt of
                                  JStr p \<Rightarrow>
                                    let hallucination_risk =
                                          calculate_hallucination_risk response_text p
                                            confidence_score;
                                        (resp, w5) =
                                          chat_respond env request_id start_time p response
                                            response_text confidence_score hallucination_risk
                                            llm_start llm_end w4
                                    in (Inr resp, w5)
                                | _ \<Rightarrow> (Inl (no_attribute prompt ''split''), w4))))))"

definition error_data :: "string \<Rightarrow> error \<Rightarrow> real \<Rightarrow> (string \<times> json) list" where
  "error_data request_id e elapsed_ms =
     [(''request_id'', JStr request_id),
      (''error'', JStr (str_error e)),
      (''latency_ms'', JFloat elapsed_ms),
      (''status'', JStr ''error'')]"

definition error_series :: "env \<Rightarrow> int \<Rightarrow> metric_series list" where
  "error_series env timestamp =
     [\<lparr>ms_metric = ''llm.error.count'', ms_type = UNSPECIFIED,
       ms_points = [\<lparr>mp_timestamp = timestamp, mp_value = JFloat 1\<rparr>],
       ms_resources = [],
       ms_tags = [''service:'' @ SERVICE_NAME, ''env:'' @ ENVIRONMENT env]\<rparr>]"

definition error_envelope :: "string \<Rightarrow> error \<Rightarrow> json" where
  "error_envelope request_id e =
     JDict [(''error'', JStr (str_error e)), (''request_id'', JStr request_id)]"

definition chat_except :: "env \<Rightarrow> string \<Rightarrow> real \<Rightarrow> error \<Rightarrow> world \<Rightarrow> http_response \<times> world" where
  "chat_except env request_id start_time e w =
     (let (error_time, w1) = time_time env w;
          w2 = send_logs_to_datadog env
                 (error_data request_id e ((error_time - start_time) * 1000)) w1;
          (t, w3) = time_time env w2;
          series = error_series env (py_int t);
          w4 = (case sink_metrics env series of
                  None \<Rightarrow> emit (SubmitMetrics series) w3
                | Some e' \<Rightarrow> emit (SubmitMetrics series) w3)
      in ((error_envelope request_id e, 500), w4))"

definition chat :: "env \<Rightarrow> http_response \<times> world" where
  "chat env =
     (let w0 = \<lparr>clock = 0, trace = []\<rparr>;
          request_id = uuid4 env;
          (start_time, w1) = time_time env w0
      in case chat_try env request_id start_time w1 of
           (Inr resp, w) \<Rightarrow> (resp, w)
         | (Inl e, w) \<Rightarrow> chat_except env request_id start_time e w)"

section \<open>Observations on a finished request\<close>

text \<open>What the claims speak about: the calls of the model, the metric series and the
  log entries handed to the sinks (in order), a field of the response body, and the
  status code.\<close>

fun model_calls :: "event list \<Rightarrow> json list" where
  "model_calls [] = []"
| "model_calls (ModelCall c # evs) = c # model_calls evs"
| "model_calls (ev # evs) = model_calls evs"

fun submitted_metrics :: "event list \<Rightarrow> metric_series list" where
  "submitted_metrics [] = []"
| "submitted_metrics (SubmitMetrics payload # evs) = payload @ submitted_metrics evs"
| "submitted_metrics (ev # evs) = submitted_metrics evs"

fun submitted_logs :: "event list \<Rightarrow> http_log_item list" where
  "submitted_logs [] = []"
| "submitted_logs (SubmitLog body # evs) = body @ submitted_logs evs"
| "submitted_logs (ev # evs) = submitted_logs evs"

text \<open>The state in which the \<^verbatim>\<open>try\<close> block of the handler starts: one clock
  reading taken (\<open>start_time\<close>), nothing done yet.\<close>

definition start_world :: world where
  "start_world = \<lparr>clock = 1, trace = []\<rparr>"

definition response_field :: "http_response \<Rightarrow> string \<Rightarrow> json option" where
  "response_field resp key = (case fst resp of JDict items \<Rightarrow> map_of items key | _ \<Rightarrow> None)"

definition status_code :: "http_response \<Rightarrow> nat" where
  "status_code resp = snd resp"

text \<open>The two latencies of a request: the \<open>latency_ms\<close> of the response metadata, and
  the values of the points of the series \<open>llm.request.latency_ms\<close>.\<close>

definition envelope_latency :: "http_response \<Rightarrow> json option" where
  "envelope_latency resp =
     (case response_field resp ''metadata'' of
        Some (JDict metadata) \<Rightarrow> map_of metadata ''latency_ms''
      | _ \<Rightarrow> None)"

definition telemetry_latency :: "event list \<Rightarrow> json list" where
  "telemetry_latency evs =
     concat (map (\<lambda>s. map mp_value (ms_points s))
               (filter (\<lambda>s. ms_metric s = ''llm.request.latency_ms'') (submitted_metrics evs)))"

text \<open>Every string a metric series carries (its name, its tags, its resources and any
  point value that is a string), and whether a request id occurs in one of them.\<close>

definition series_strings :: "metric_series \<Rightarrow> string list" where
  "series_strings s =
     ms_metric s # ms_tags s
     @ concat (map (\<lambda>r. [mr_name r, mr_type r]) (ms_resources s))
     @ concat (map (\<lambda>pt. case mp_value pt of JStr v \<Rightarrow> [v] | _ \<Rightarrow> []) (ms_points s))"

definition mentions :: "string \<Rightarrow> metric_series \<Rightarrow> bool" where
  "mentions request_id s = list_ex (py_in request_id) (series_strings s)"

text \<open>How the \<^verbatim>\<open>try\<close> block ended: with an error, or with a response of some
  status.\<close>

definition outcome :: "error + http_response \<Rightarrow> error + nat" where
  "outcome r = map_sum id snd r"

section \<open>Concrete inputs used to exercise the theorems\<close>

definition example_prompt :: string where
  "example_prompt = ''Will it rain tomorrow?''"

definition example_hedged_reply :: string where
  "example_hedged_reply = ''It might possibly rain; perhaps, maybe. Probably.''"

definition example_plain_reply :: string where
  "example_plain_reply = ''Paris.''"

definition example_long_reply :: string where
  "example_long_reply = concat (replicate 10 ''it might possibly rain perhaps maybe probably '')"

definition example_model :: "json \<Rightarrow> error + model_response" where
  "example_model contents =
     (case contents of
        JStr s \<Rightarrow>
          if s = example_prompt
          then Inr \<lparr>resp_text = Inr example_hedged_reply, usage_metadata = Some 42\<rparr>
          else Inr \<lparr>resp_text = Inr ''0.3'', usage_metadata = None\<rparr>
      | _ \<Rightarrow> Inl (ServiceError ''unsupported content''))"

definition example_env :: env where
  "example_env =
     \<lparr>uuid4 = ''123e4567-e89b-42d3-a456-426614174000'',
      clock_reading = (\<lambda>k. 1000 + real k / 2),
      request_json = Inr (JDict [(''prompt'', JStr example_prompt)]),
      model_generate = example_model,
      sink_metrics = (\<lambda>payload. None),
      sink_logs = (\<lambda>body. None),
      py_str = (\<lambda>v. ''0.0''),
      MODEL_NAME = ''gemini-2.5-flash'',
      ENVIRONMENT = ''dev''\<rparr>"




text \<open>Requests without a usable prompt, requests without a JSON object as body, and
  sinks that are down.\<close>

definition missing_prompt_env :: env where
  "missing_prompt_env = example_env\<lparr>request_json := Inr (JDict [(''question'', JStr ''Rain?'')])\<rparr>"

definition empty_prompt_env :: env where
  "empty_prompt_env = example_env\<lparr>request_json := Inr (JDict [(''prompt'', JStr [])])\<rparr>"


definition array_body_env :: env where
  "array_body_env = example_env\<lparr>request_json := Inr (JList [JStr ''Rain?''])\<rparr>"

definition failing_sinks_env :: env where
  "failing_sinks_env =
     example_env\<lparr>sink_metrics := (\<lambda>payload. Some (ServiceError ''connection refused'')),
                 sink_logs := (\<lambda>body. Some (ServiceError ''connection refused''))\<rparr>"

text \<open>Clocks: one whose readings coincide around a generation that takes 1.234 ms,
  and one that is set back by the system between the generation and the response.\<close>

definition rounding_env :: env where
  "rounding_env =
     example_env\<lparr>clock_reading := (\<lambda>k. if k \<le> 1 then 1000 else 1000 + 1234 / 1000000)\<rparr>"

definition clock_set_back_env :: env where
  "clock_set_back_env =
     example_env\<lparr>clock_reading :=
       (\<lambda>k. if k = 0 then 1000 else if k = 1 then 1000 + 1 / 100
            else if k = 2 then 1000 + 51 / 100 else 1000 + 1 / 10)\<rparr>"

section \<open>Verification: the hallucination risk score\<close>

lemma hedging_count_le: "hedging_count r \<le> 9"
proof -
  have "length (filter (\<lambda>word. py_in word (lower r)) hedging_words) \<le> length hedging_words"
    by (rule length_filter_le)
  moreover have "length hedging_words = 9"
    by (simp add: hedging_words_def)
  ultimately show ?thesis
    unfolding hedging_count_def Let_def by simp
qed

lemma verbosity_ratio_nonneg: "0 \<le> verbosity_ratio r p"
  by (simp add: verbosity_ratio_def Let_def)

lemma risk_unfold:
  "calculate_hallucination_risk r p c =
     min ((1 - c) * (4 / 10) + min (real (hedging_count r) / 5) 1 * (3 / 10)
          + min (verbosity_ratio r p / 50) 1 * (3 / 10)) 1"
  by (simp add: calculate_hallucination_risk_def Let_def)

lemma split_empty: "split [] = []"
  by (simp add: split_def)

lemma py_in_empty: "py_in (w # ws) [] = False"
  by simp

lemma hedging_count_empty: "hedging_count [] = 0"
  by (simp add: hedging_count_def lower_def hedging_words_def)

lemma verbosity_ratio_empty: "verbosity_ratio [] p = 0"
  by (simp add: verbosity_ratio_def split_empty)


lemma hedging_count_hedged: "hedging_count example_hedged_reply = 5"
  unfolding example_hedged_reply_def by code_simp

lemma hedging_count_plain: "hedging_count example_plain_reply = 0"
  unfolding example_plain_reply_def by code_simp

lemma hedging_count_long: "hedging_count example_long_reply = 5"
  unfolding example_long_reply_def by code_simp

lemma words_example_prompt: "length (split example_prompt) = 4"
  unfolding example_prompt_def by code_simp

lemma words_hedged: "length (split example_hedged_reply) = 7"
  unfolding example_hedged_reply_def by code_simp

lemma words_plain: "length (split example_plain_reply) = 1"
  unfolding example_plain_reply_def by code_simp

lemma words_long: "length (split example_long_reply) = 70"
  unfolding example_long_reply_def by code_simp

lemma words_rain: "length (split ''Rain?'') = 1"
  by code_simp

lemma verbosity_hedged: "verbosity_ratio example_hedged_reply example_prompt = 7 / 4"
  by (simp add: verbosity_ratio_def words_hedged words_example_prompt)

lemma verbosity_plain: "verbosity_ratio example_plain_reply example_prompt = 1 / 4"
  by (simp add: verbosity_ratio_def words_plain words_example_prompt)

lemma verbosity_long: "verbosity_ratio example_long_reply ''Rain?'' = 70"
  by (simp add: verbosity_ratio_def words_long words_rain)

text \<open>
  Claim C1. For every response, every prompt and every confidence \<open>c\<close> with
  \<open>0 \<le> c \<le> 1\<close> the risk lies in \<open>[0, 1]\<close>. When the confidence is 0, at least
  five hedging phrases match and the verbosity ratio is at least 50, the risk is exactly
  1; when the confidence is 1, no hedging phrase matches and the verbosity ratio is 0
  (in particular for the empty response), the risk is exactly 0.
\<close>

theorem risk_in_unit_interval:
  "(0 \<le> c \<and> c \<le> 1 \<longrightarrow>
      0 \<le> calculate_hallucination_risk r p c \<and> calculate_hallucination_risk r p c \<le> 1)
   \<and> (5 \<le> hedging_count r \<and> 50 \<le> verbosity_ratio r p \<longrightarrow>
      calculate_hallucination_risk r p 0 = 1)
   \<and> (hedging_count r = 0 \<and> verbosity_ratio r p = 0 \<longrightarrow>
      calculate_hallucination_risk r p 1 = 0)
   \<and> calculate_hallucination_risk [] p 1 = 0"
proof (intro conjI impI)
  assume c: "0 \<le> c \<and> c \<le> 1"
  have h: "0 \<le> min (real (hedging_count r) / 5) 1" by simp
  have v: "0 \<le> min (verbosity_ratio r p / 50) 1"
    using verbosity_ratio_nonneg [of r p] by simp
  have "0 \<le> (1 - c) * (4 / 10) + min (real (hedging_count r) / 5) 1 * (3 / 10)
          + min (verbosity_ratio r p / 50) 1 * (3 / 10)"
    using c h v by (intro add_nonneg_nonneg mult_nonneg_nonneg) simp_all
  then show "0 \<le> calculate_hallucination_risk r p c"
    by (simp add: risk_unfold)
  show "calculate_hallucination_risk r p c \<le> 1"
    by (simp add: risk_unfold)
next
  assume a: "5 \<le> hedging_count r \<and> 50 \<le> verbosity_ratio r p"
  then have "min (real (hedging_count r) / 5) 1 = 1" "min (verbosity_ratio r p / 50) 1 = 1"
    by (simp_all add: min_def)
  then show "calculate_hallucination_risk r p 0 = 1"
    by (simp add: risk_unfold)
next
  assume "hedging_count r = 0 \<and> verbosity_ratio r p = 0"
  then show "calculate_hallucination_risk r p 1 = 0"
    by (simp add: risk_unfold)
next
  show "calculate_hallucination_risk [] p 1 = 0"
    by (simp add: risk_unfold hedging_count_empty verbosity_ratio_empty)
qed

theorem risk_in_unit_interval_witness:
  "0 \<le> calculate_hallucination_risk example_hedged_reply example_prompt (1 / 2)
   \<and> calculate_hallucination_risk example_hedged_reply example_prompt (1 / 2) \<le> 1
   \<and> 5 \<le> hedging_count example_long_reply
   \<and> 50 \<le> verbosity_ratio example_long_reply ''Rain?''
   \<and> calculate_hallucination_risk example_long_reply ''Rain?'' 0 = 1
   \<and> hedging_count [] = 0 \<and> verbosity_ratio [] example_prompt = 0
   \<and> calculate_hallucination_risk [] example_prompt 1 = 0"
proof -
  have c: "(0::real) \<le> 1 / 2 \<and> (1::real) / 2 \<le> 1" by simp
  have hi: "5 \<le> hedging_count example_long_reply \<and> 50 \<le> verbosity_ratio example_long_reply ''Rain?''"
    by (simp add: hedging_count_long verbosity_long)
  have lo: "hedging_count [] = 0 \<and> verbosity_ratio [] example_prompt = 0"
    by (simp add: hedging_count_empty verbosity_ratio_empty)
  from risk_in_unit_interval [of "1 / 2" example_hedged_reply example_prompt] c
  have 1: "0 \<le> calculate_hallucination_risk example_hedged_reply example_prompt (1 / 2)
     \<and> calculate_hallucination_risk example_hedged_reply example_prompt (1 / 2) \<le> 1"
    by blast
  from risk_in_unit_interval [of 0 example_long_reply "''Rain?''"] hi
  have 2: "calculate_hallucination_risk example_long_reply ''Rain?'' 0 = 1"
    by blast
  from risk_in_unit_interval [of 0 "[]" example_prompt] lo
  have 3: "calculate_hallucination_risk [] example_prompt 1 = 0"
    by blast
  from 1 2 3 hi lo show ?thesis by blast
qed

text \<open>
  Claim C2. The risk is monotone: lowering the confidence, matching more hedging
  phrases, or raising the verbosity ratio never lowers the risk. The statement lets
  the three inputs move together; holding two of them fixed is the case of equality
  in the two corresponding hypotheses.
\<close>

theorem risk_monotone:
  "c2 \<le> c1 \<and> hedging_count r1 \<le> hedging_count r2
    \<and> verbosity_ratio r1 p1 \<le> verbosity_ratio r2 p2
   \<longrightarrow> calculate_hallucination_risk r1 p1 c1 \<le> calculate_hallucination_risk r2 p2 c2"
proof
  assume a: "c2 \<le> c1 \<and> hedging_count r1 \<le> hedging_count r2
    \<and> verbosity_ratio r1 p1 \<le> verbosity_ratio r2 p2"
  have 1: "(1 - c1) * (4 / 10) \<le> (1 - c2) * (4 / 10)"
    using a by simp
  have "real (hedging_count r1) / 5 \<le> real (hedging_count r2) / 5"
    using a by simp
  then have 2: "min (real (hedging_count r1) / 5) 1 * (3 / 10)
      \<le> min (real (hedging_count r2) / 5) 1 * (3 / 10)"
    by (simp add: min_def)
  have "verbosity_ratio r1 p1 / 50 \<le> verbosity_ratio r2 p2 / 50"
    using a by simp
  then have 3: "min (verbosity_ratio r1 p1 / 50) 1 * (3 / 10)
      \<le> min (verbosity_ratio r2 p2 / 50) 1 * (3 / 10)"
    by (simp add: min_def)
  from 1 2 3 show "calculate_hallucination_risk r1 p1 c1 \<le> calculate_hallucination_risk r2 p2 c2"
    unfolding risk_unfold by (intro min.mono add_mono) simp_all
qed

theorem risk_monotone_witness:
  "(1::real) / 2 \<le> 9 / 10
   \<and> hedging_count example_plain_reply \<le> hedging_count example_hedged_reply
   \<and> verbosity_ratio example_plain_reply example_prompt
        \<le> verbosity_ratio example_hedged_reply example_prompt
   \<and> calculate_hallucination_risk example_plain_reply example_prompt (9 / 10)
        \<le> calculate_hallucination_risk example_hedged_reply example_prompt (1 / 2)"
proof -
  have h: "(1::real) / 2 \<le> 9 / 10
     \<and> hedging_count example_plain_reply \<le> hedging_count example_hedged_reply
     \<and> verbosity_ratio example_plain_reply example_prompt
          \<le> verbosity_ratio example_hedged_reply example_prompt"
    by (simp add: hedging_count_plain hedging_count_hedged verbosity_plain verbosity_hedged)
  with risk_monotone [of "1 / 2" "9 / 10" example_plain_reply example_hedged_reply
      example_prompt example_prompt]
  show ?thesis by blast
qed

text \<open>
  Claim C6, as stated, fails: a completion that matches five hedging phrases, scored
  at confidence 0.3 against a four-word prompt, has risk 1181/2000 = 0.5905, which is
  not above 0.7.
\<close>

theorem hedged_low_confidence_counterexample:
  "hedging_count example_hedged_reply = 5
   \<and> calculate_hallucination_risk example_hedged_reply example_prompt (3 / 10) = 1181 / 2000
   \<and> \<not> 7 / 10 < calculate_hallucination_risk example_hedged_reply example_prompt (3 / 10)"
  by (simp add: risk_unfold hedging_count_hedged verbosity_hedged)

text \<open>
  Claim C6, amended. With at least five hedging phrases matched and confidence 0.3
  the risk is \<open>0.58 + 0.3 * min (verbosity_ratio / 50) 1\<close>: it is at least 0.58, and
  it exceeds 0.7 exactly when the verbosity ratio exceeds 20.
\<close>

theorem hedged_low_confidence_risk:
  "5 \<le> hedging_count r \<longrightarrow>
   calculate_hallucination_risk r p (3 / 10)
     = 29 / 50 + min (verbosity_ratio r p / 50) 1 * (3 / 10)
   \<and> 29 / 50 \<le> calculate_hallucination_risk r p (3 / 10)
   \<and> (7 / 10 < calculate_hallucination_risk r p (3 / 10) \<longleftrightarrow> 20 < verbosity_ratio r p)"
proof
  assume a: "5 \<le> hedging_count r"
  then have h: "min (real (hedging_count r) / 5) 1 = 1"
    by (simp add: min_def)
  have v: "0 \<le> verbosity_ratio r p"
    by (rule verbosity_ratio_nonneg)
  have e: "calculate_hallucination_risk r p (3 / 10)
      = 29 / 50 + min (verbosity_ratio r p / 50) 1 * (3 / 10)"
    unfolding risk_unfold h by (simp add: min_def)
  show "calculate_hallucination_risk r p (3 / 10)
     = 29 / 50 + min (verbosity_ratio r p / 50) 1 * (3 / 10)
   \<and> 29 / 50 \<le> calculate_hallucination_risk r p (3 / 10)
   \<and> (7 / 10 < calculate_hallucination_risk r p (3 / 10) \<longleftrightarrow> 20 < verbosity_ratio r p)"
    unfolding e using v by (auto simp: min_def)
qed

theorem hedged_low_confidence_risk_witness:
  "5 \<le> hedging_count example_long_reply
   \<and> 29 / 50 \<le> calculate_hallucination_risk example_long_reply ''Rain?'' (3 / 10)
   \<and> 7 / 10 < calculate_hallucination_risk example_long_reply ''Rain?'' (3 / 10)
   \<and> 20 < verbosity_ratio example_long_reply ''Rain?''"
proof -
  have h: "5 \<le> hedging_count example_long_reply"
    by (simp add: hedging_count_long)
  have v: "20 < verbosity_ratio example_long_reply ''Rain?''"
    by (simp add: verbosity_long)
  from hedged_low_confidence_risk [of example_long_reply "''Rain?''"] h v
  show ?thesis by blast
qed

section \<open>Verification: the prompt hash\<close>
















section \<open>Verification: self-confidence elicitation\<close>












lemma takeWhile_all: "list_all P xs \<Longrightarrow> takeWhile P xs = xs"
  by (induction xs) auto

lemma dropWhile_all: "list_all P xs \<Longrightarrow> dropWhile P xs = []"
  by (induction xs) auto







lemma get_self_confidence_unfold:
  "fst (get_self_confidence env p a w) =
     (case parse_confidence (confidence_reply env p a) of Inr c \<Rightarrow> c | Inl e \<Rightarrow> 1 / 2)"
  by (simp add: get_self_confidence_def generate_content_def confidence_reply_def
      split: sum.splits)













section \<open>Verification: effects of the dispatch functions\<close>

lemma model_calls_append: "model_calls (xs @ ys) = model_calls xs @ model_calls ys"
  by (induction xs rule: model_calls.induct) simp_all

lemma submitted_metrics_append:
  "submitted_metrics (xs @ ys) = submitted_metrics xs @ submitted_metrics ys"
  by (induction xs rule: submitted_metrics.induct) simp_all

lemma submitted_logs_append: "submitted_logs (xs @ ys) = submitted_logs xs @ submitted_logs ys"
  by (induction xs rule: submitted_logs.induct) simp_all

lemmas observe_append = model_calls_append submitted_metrics_append submitted_logs_append

lemma time_time_simps:
  "fst (time_time env w) = clock_reading env (clock w)"
  "snd (time_time env w) = w\<lparr>clock := Suc (clock w)\<rparr>"
  by (simp_all add: time_time_def)

lemma emit_simps:
  "clock (emit ev w) = clock w"
  "trace (emit ev w) = trace w @ [ev]"
  by (simp_all add: emit_def)

lemma generate_content_simps:
  "fst (generate_content env c w) = model_generate env c"
  "snd (generate_content env c w) = emit (ModelCall c) w"
  by (simp_all add: generate_content_def)

lemma get_self_confidence_world:
  "clock (snd (get_self_confidence env p a w)) = clock w"
  "model_calls (trace (snd (get_self_confidence env p a w)))
     = model_calls (trace w) @ [JStr (confidence_prompt env p a)]"
  "submitted_metrics (trace (snd (get_self_confidence env p a w))) = submitted_metrics (trace w)"
  "submitted_logs (trace (snd (get_self_confidence env p a w))) = submitted_logs (trace w)"
  by (simp_all add: get_self_confidence_def generate_content_def emit_def
      observe_append split: sum.splits)

lemma send_logs_world:
  "clock (send_logs_to_datadog env d w) = clock w"
  "model_calls (trace (send_logs_to_datadog env d w)) = model_calls (trace w)"
  "submitted_metrics (trace (send_logs_to_datadog env d w)) = submitted_metrics (trace w)"
  by (simp_all add: send_logs_to_datadog_def emit_def Let_def
      observe_append split: option.splits)

lemma send_logs_submitted:
  assumes "\<not> list_ex (\<lambda>key. key \<in> set log_item_arguments) (map fst d)"
  shows "submitted_logs (trace (send_logs_to_datadog env d w))
           = submitted_logs (trace w) @ [log_item env d]"
  using assms
  by (simp add: send_logs_to_datadog_def emit_def Let_def
      observe_append split: option.splits)

lemma error_data_keys:
  "\<not> list_ex (\<lambda>key. key \<in> set log_item_arguments) (map fst (error_data rid e l))"
  by (simp add: log_item_arguments_def error_data_def)

lemma success_log_data_keys:
  "\<not> list_ex (\<lambda>key. key \<in> set log_item_arguments)
       (map fst (success_log_data env rid p l r c a))"
  by (simp add: log_item_arguments_def success_log_data_def)

lemma send_metrics_world:
  "clock (send_metrics_to_datadog env d w) = Suc (clock w)"
  "model_calls (trace (send_metrics_to_datadog env d w)) = model_calls (trace w)"
  "submitted_logs (trace (send_metrics_to_datadog env d w)) = submitted_logs (trace w)"
  by (simp_all add: send_metrics_to_datadog_def time_time_def emit_def Let_def
      observe_append split: option.splits sum.splits)

lemma send_metrics_submitted:
  "submitted_metrics (trace (send_metrics_to_datadog env d w))
     = submitted_metrics (trace w)
       @ (case metrics_payload env (py_int (clock_reading env (clock w))) d of
            Inr payload \<Rightarrow> payload | Inl e \<Rightarrow> [])"
  by (simp add: send_metrics_to_datadog_def time_time_def emit_def Let_def
      observe_append split: option.splits sum.splits)

lemma metrics_payload_success:
  "metrics_payload env ts (success_metrics_data env l c r a t)
   = Inr (map (series_of [''model_name:'' @ MODEL_NAME env, ''service:'' @ SERVICE_NAME,
                          ''env:'' @ ENVIRONMENT env] ts)
            [(''llm.request.latency_ms'', JFloat l), (''llm.self_confidence'', JFloat c),
             (''llm.hallucination_risk'', JFloat r), (''llm.answer_length'', JInt a),
             (''llm.token.count'', JInt t)])"
  by (simp add: metrics_payload_def success_metrics_data_def bind_err_def dict_index_def
      dict_get_def fmt_def Let_def)

lemma chat_respond_fst:
  "fst (chat_respond env rid st p response t c r ls le w) =
     (success_envelope env rid t ((clock_reading env (Suc (clock w)) - st) * 1000) c r, 200)"
  by (simp add: chat_respond_def Let_def time_time_def send_metrics_world send_logs_world
      split: prod.splits)

lemma chat_respond_world:
  "clock (snd (chat_respond env rid st p response t c r ls le w)) = Suc (Suc (clock w))"
  "model_calls (trace (snd (chat_respond env rid st p response t c r ls le w)))
     = model_calls (trace w)"
  "submitted_logs (trace (snd (chat_respond env rid st p response t c r ls le w)))
     = submitted_logs (trace w)
       @ [log_item env (success_log_data env rid p ((le - ls) * 1000) r c
                          (int (length (split t))))]"
  "submitted_metrics (trace (snd (chat_respond env rid st p response t c r ls le w)))
     = submitted_metrics (trace w)
       @ map (series_of [''model_name:'' @ MODEL_NAME env, ''service:'' @ SERVICE_NAME,
                         ''env:'' @ ENVIRONMENT env] (py_int (clock_reading env (clock w))))
           [(''llm.request.latency_ms'', JFloat ((le - ls) * 1000)),
            (''llm.self_confidence'', JFloat c),
            (''llm.hallucination_risk'', JFloat r),
            (''llm.answer_length'', JInt (int (length (split t)))),
            (''llm.token.count'', JInt (case usage_metadata response of Some n \<Rightarrow> n | None \<Rightarrow> 0))]"
  by (simp_all add: chat_respond_def Let_def time_time_def send_metrics_world send_logs_world
      send_logs_submitted success_log_data_keys send_metrics_submitted metrics_payload_success
      split: prod.splits)

lemma chat_except_fst:
  "fst (chat_except env rid st e w) = (error_envelope rid e, 500)"
  by (simp add: chat_except_def Let_def split: prod.splits)

lemma chat_except_world:
  "model_calls (trace (snd (chat_except env rid st e w))) = model_calls (trace w)"
  "submitted_logs (trace (snd (chat_except env rid st e w)))
     = submitted_logs (trace w)
       @ [log_item env (error_data rid e ((clock_reading env (clock w) - st) * 1000))]"
  "submitted_metrics (trace (snd (chat_except env rid st e w)))
     = submitted_metrics (trace w) @ error_series env (py_int (clock_reading env (Suc (clock w))))"
  by (simp_all add: chat_except_def Let_def time_time_def emit_def send_logs_world
      send_logs_submitted error_data_keys observe_append split: prod.splits option.splits)

section \<open>Verification: the paths of the handler\<close>

lemma chat_unfold:
  "chat env =
     (case fst (chat_try env (uuid4 env) (clock_reading env 0) start_world) of
        Inr resp \<Rightarrow> (resp, snd (chat_try env (uuid4 env) (clock_reading env 0) start_world))
      | Inl e \<Rightarrow> chat_except env (uuid4 env) (clock_reading env 0) e
                  (snd (chat_try env (uuid4 env) (clock_reading env 0) start_world)))"
  by (simp add: chat_def Let_def time_time_def start_world_def split: prod.splits sum.splits)

lemma chat_try_rejects:
  assumes "request_json env = Inr (JDict kvs)"
    and "map_of kvs ''prompt'' = None \<or> map_of kvs ''prompt'' = Some (JStr [])"
  shows "chat_try env rid st w = (Inr (input_error, 400), w)"
  using assms by (auto simp: chat_try_def py_get_def)

lemma chat_try_no_json:
  assumes "request_json env = Inl e"
  shows "chat_try env rid st w = (Inl e, w)"
  using assms by (simp add: chat_try_def)

lemma chat_try_not_dict:
  assumes "request_json env = Inr data" and "\<forall>kvs. data \<noteq> JDict kvs"
  shows "chat_try env rid st w = (Inl (no_attribute data ''get''), w)"
  using assms by (cases data) (simp_all add: chat_try_def py_get_def)

lemma chat_try_answers:
  assumes "request_json env = Inr (JDict kvs)"
    and "map_of kvs ''prompt'' = Some (JStr p)" and "p \<noteq> []"
    and "model_generate env (JStr p) = Inr response"
    and "resp_text response = Inr t"
  shows "chat_try env rid st w =
     (let w3 = (emit (ModelCall (JStr p)) (w\<lparr>clock := Suc (clock w)\<rparr>))\<lparr>clock := Suc (Suc (clock w))\<rparr>;
          c = fst (get_self_confidence env (JStr p) t w3);
          w4 = snd (get_self_confidence env (JStr p) t w3);
          out = chat_respond env rid st p response t c (calculate_hallucination_risk t p c)
                  (clock_reading env (clock w)) (clock_reading env (Suc (clock w))) w4
      in (Inr (fst out), snd out))"
  using assms
  by (simp add: chat_try_def py_get_def time_time_def generate_content_def emit_def Let_def
      split: prod.splits)

lemma chat_try_outcome:
  "(fst (chat_try env rid st w) = Inr (input_error, 400) \<and> snd (chat_try env rid st w) = w)
   \<or> (\<exists>e. fst (chat_try env rid st w) = Inl e
         \<and> submitted_logs (trace (snd (chat_try env rid st w))) = submitted_logs (trace w)
         \<and> submitted_metrics (trace (snd (chat_try env rid st w))) = submitted_metrics (trace w))
   \<or> (\<exists>kvs p response t. request_json env = Inr (JDict kvs)
         \<and> map_of kvs ''prompt'' = Some (JStr p) \<and> p \<noteq> []
         \<and> model_generate env (JStr p) = Inr response \<and> resp_text response = Inr t)"
proof (cases "request_json env")
  case (Inl e)
  then show ?thesis by (simp add: chat_try_no_json)
next
  case (Inr data)
  show ?thesis
  proof (cases "py_get data ''prompt'' (JStr [])")
    case (Inl e)
    with Inr show ?thesis by (simp add: chat_try_def)
  next
    case get: (Inr prompt)
    show ?thesis
    proof (cases "truthy prompt")
      case False
      with Inr get show ?thesis by (simp add: chat_try_def)
    next
      case True
      show ?thesis
      proof (cases "model_generate env prompt")
        case (Inl e)
        with Inr get True show ?thesis
          by (simp add: chat_try_def time_time_def generate_content_def emit_def observe_append)
      next
        case gen: (Inr response)
        show ?thesis
        proof (cases "resp_text response")
          case (Inl e)
          with Inr get True gen show ?thesis
            by (simp add: chat_try_def time_time_def generate_content_def emit_def observe_append)
        next
          case rtext: (Inr t)
          show ?thesis
          proof (cases "\<exists>p. prompt = JStr p")
            case True
            then obtain p where p: "prompt = JStr p" by blast
            from get obtain kvs where kvs: "data = JDict kvs"
              by (cases data) (simp_all add: py_get_def)
            with get p have "map_of kvs ''prompt'' = Some (JStr p) \<or> p = []"
              by (auto simp: py_get_def split: option.splits)
            with \<open>truthy prompt\<close> p have "map_of kvs ''prompt'' = Some (JStr p)" "p \<noteq> []"
              by auto
            with Inr kvs gen rtext p show ?thesis by blast
          next
            case False
            with Inr get True gen rtext show ?thesis
              by (cases prompt)
                (simp_all add: chat_try_def time_time_def generate_content_def emit_def
                  observe_append get_self_confidence_world case_prod_beta)
          qed
        qed
      qed
    qed
  qed
qed

section \<open>Verification: rejected and failed requests, failing sinks\<close>


text \<open>
  Claim C4. A request whose JSON object has no \<open>prompt\<close> key, or has the empty string
  there, is answered at once with status 400 and the body
  \<open>{"error": "prompt is required"}\<close>; the trace of the request is empty: the model
  was not called, and no metric series and no log entry was handed to a sink.
\<close>

theorem empty_prompt_rejected:
  "request_json env = Inr (JDict kvs)
   \<and> (map_of kvs ''prompt'' = None \<or> map_of kvs ''prompt'' = Some (JStr []))
   \<longrightarrow> fst (chat env) = (JDict [(''error'', JStr ''prompt is required'')], 400)
       \<and> trace (snd (chat env)) = []
       \<and> model_calls (trace (snd (chat env))) = []
       \<and> submitted_metrics (trace (snd (chat env))) = []
       \<and> submitted_logs (trace (snd (chat env))) = []"
proof
  assume h: "request_json env = Inr (JDict kvs)
   \<and> (map_of kvs ''prompt'' = None \<or> map_of kvs ''prompt'' = Some (JStr []))"
  then have "chat_try env (uuid4 env) (clock_reading env 0) start_world
      = (Inr (input_error, 400), start_world)"
    using chat_try_rejects by blast
  then have "chat env = ((input_error, 400), start_world)"
    by (simp add: chat_unfold)
  then show "fst (chat env) = (JDict [(''error'', JStr ''prompt is required'')], 400)
       \<and> trace (snd (chat env)) = []
       \<and> model_calls (trace (snd (chat env))) = []
       \<and> submitted_metrics (trace (snd (chat env))) = []
       \<and> submitted_logs (trace (snd (chat env))) = []"
    by (simp add: input_error_def start_world_def)
qed

theorem empty_prompt_rejected_witness:
  "fst (chat missing_prompt_env) = (JDict [(''error'', JStr ''prompt is required'')], 400)
   \<and> trace (snd (chat missing_prompt_env)) = []
   \<and> fst (chat empty_prompt_env) = (JDict [(''error'', JStr ''prompt is required'')], 400)
   \<and> trace (snd (chat empty_prompt_env)) = []"
proof -
  have 1: "request_json missing_prompt_env = Inr (JDict [(''question'', JStr ''Rain?'')])
      \<and> (map_of [(''question'', JStr ''Rain?'')] ''prompt'' = None
          \<or> map_of [(''question'', JStr ''Rain?'')] ''prompt'' = Some (JStr []))"
    by (simp add: missing_prompt_env_def)
  have 2: "request_json empty_prompt_env = Inr (JDict [(''prompt'', JStr [])])
      \<and> (map_of [(''prompt'', JStr [])] ''prompt'' = None
          \<or> map_of [(''prompt'', JStr [])] ''prompt'' = Some (JStr []))"
    by (simp add: empty_prompt_env_def)
  from empty_prompt_rejected [of missing_prompt_env "[(''question'', JStr ''Rain?'')]"] 1
    empty_prompt_rejected [of empty_prompt_env "[(''prompt'', JStr [])]"] 2
  show ?thesis by blast
qed



lemma fmt_sinks: "fmt (env\<lparr>sink_metrics := m, sink_logs := l\<rparr>) v = fmt env v"
  by (cases v) (simp_all add: fmt_def)

lemma confidence_prompt_sinks:
  "confidence_prompt (env\<lparr>sink_metrics := m, sink_logs := l\<rparr>) p a = confidence_prompt env p a"
  by (simp add: confidence_prompt_def fmt_sinks)

lemma get_self_confidence_sinks:
  "get_self_confidence (env\<lparr>sink_metrics := m, sink_logs := l\<rparr>) p a w
     = get_self_confidence env p a w"
  by (simp add: get_self_confidence_def generate_content_def confidence_prompt_sinks)

lemma chat_respond_fst_sinks:
  "fst (chat_respond (env\<lparr>sink_metrics := m, sink_logs := l\<rparr>) rid st p response t c r ls le w)
     = fst (chat_respond env rid st p response t c r ls le w)"
  by (simp add: chat_respond_fst success_envelope_def)

lemma chat_try_sinks:
  "fst (chat_try (env\<lparr>sink_metrics := m, sink_logs := l\<rparr>) rid st w) = fst (chat_try env rid st w)"
  by (simp add: chat_try_def time_time_def generate_content_def get_self_confidence_sinks
      chat_respond_fst_sinks case_prod_beta Let_def split: sum.splits json.splits)

text \<open>
  Claim C7. Two runs of the handler that differ only in how the metrics sink and the
  log sink behave (succeeding, or raising any error on any payload) return the same
  body and the same status code. The dispatch functions return no error by
  construction: their \<^verbatim>\<open>except Exception\<close> clauses end in a printed line.
\<close>

theorem sink_failure_invisible:
  "fst (chat (env\<lparr>sink_metrics := m, sink_logs := l\<rparr>)) = fst (chat env)"
proof -
  let ?env' = "env\<lparr>sink_metrics := m, sink_logs := l\<rparr>"
  have "fst (chat_try ?env' (uuid4 env) (clock_reading env 0) start_world)
      = fst (chat_try env (uuid4 env) (clock_reading env 0) start_world)"
    by (rule chat_try_sinks)
  then show ?thesis
    by (simp add: chat_unfold chat_except_fst split: sum.splits)
qed

theorem sink_failure_invisible_witness:
  "fst (chat failing_sinks_env) = fst (chat example_env)"
  unfolding failing_sinks_env_def by (rule sink_failure_invisible)

section \<open>Verification: the successful request\<close>

lemma get_self_confidence_fst_any:
  "fst (get_self_confidence env p a w) = fst (get_self_confidence env p a w')"
  by (simp add: get_self_confidence_unfold)

lemma chat_succeeds:
  assumes "request_json env = Inr (JDict kvs)"
    and "map_of kvs ''prompt'' = Some (JStr p)" and "p \<noteq> []"
    and "model_generate env (JStr p) = Inr response"
    and "resp_text response = Inr t"
    and "c = fst (get_self_confidence env (JStr p) t start_world)"
    and "r = calculate_hallucination_risk t p c"
  shows "fst (chat env)
           = (success_envelope env (uuid4 env) t
                ((clock_reading env 4 - clock_reading env 0) * 1000) c r, 200)"
    and "model_calls (trace (snd (chat env))) = [JStr p, JStr (confidence_prompt env (JStr p) t)]"
    and "submitted_logs (trace (snd (chat env)))
           = [log_item env (success_log_data env (uuid4 env) p
                ((clock_reading env 2 - clock_reading env 1) * 1000) r c
                (int (length (split t))))]"
    and "submitted_metrics (trace (snd (chat env)))
           = map (series_of [''model_name:'' @ MODEL_NAME env, ''service:'' @ SERVICE_NAME,
                             ''env:'' @ ENVIRONMENT env] (py_int (clock_reading env 3)))
               [(''llm.request.latency_ms'',
                   JFloat ((clock_reading env 2 - clock_reading env 1) * 1000)),
                (''llm.self_confidence'', JFloat c),
                (''llm.hallucination_risk'', JFloat r),
                (''llm.answer_length'', JInt (int (length (split t)))),
                (''llm.token.count'',
                   JInt (case usage_metadata response of Some n \<Rightarrow> n | None \<Rightarrow> 0))]"
proof -
  let ?w3 = "(emit (ModelCall (JStr p)) (start_world\<lparr>clock := Suc (clock start_world)\<rparr>))
               \<lparr>clock := Suc (Suc (clock start_world))\<rparr>"
  have c: "fst (get_self_confidence env (JStr p) t w) = c" for w
    unfolding assms(6) by (rule get_self_confidence_fst_any)
  have tried: "chat_try env (uuid4 env) (clock_reading env 0) start_world =
     (let out = chat_respond env (uuid4 env) (clock_reading env 0) p response t c r
                  (clock_reading env 1) (clock_reading env 2)
                  (snd (get_self_confidence env (JStr p) t ?w3))
      in (Inr (fst out), snd out))"
    using chat_try_answers [OF assms(1-5), of "uuid4 env" "clock_reading env 0" start_world]
    by (simp add: Let_def c assms(7) start_world_def numeral_2_eq_2)
  have chat: "chat env = chat_respond env (uuid4 env) (clock_reading env 0) p response t c r
                  (clock_reading env 1) (clock_reading env 2)
                  (snd (get_self_confidence env (JStr p) t ?w3))"
    by (simp add: chat_unfold tried Let_def)
  show "fst (chat env)
           = (success_envelope env (uuid4 env) t
                ((clock_reading env 4 - clock_reading env 0) * 1000) c r, 200)"
    unfolding chat
    by (simp add: chat_respond_fst get_self_confidence_world start_world_def eval_nat_numeral)
  show "model_calls (trace (snd (chat env))) = [JStr p, JStr (confidence_prompt env (JStr p) t)]"
    unfolding chat
    by (simp add: chat_respond_world get_self_confidence_world start_world_def emit_def)
  show "submitted_logs (trace (snd (chat env)))
           = [log_item env (success_log_data env (uuid4 env) p
                ((clock_reading env 2 - clock_reading env 1) * 1000) r c
                (int (length (split t))))]"
    unfolding chat
    by (simp add: chat_respond_world get_self_confidence_world start_world_def emit_def)
  show "submitted_metrics (trace (snd (chat env)))
           = map (series_of [''model_name:'' @ MODEL_NAME env, ''service:'' @ SERVICE_NAME,
                             ''env:'' @ ENVIRONMENT env] (py_int (clock_reading env 3)))
               [(''llm.request.latency_ms'',
                   JFloat ((clock_reading env 2 - clock_reading env 1) * 1000)),
                (''llm.self_confidence'', JFloat c),
                (''llm.hallucination_risk'', JFloat r),
                (''llm.answer_length'', JInt (int (length (split t)))),
                (''llm.token.count'',
                   JInt (case usage_metadata response of Some n \<Rightarrow> n | None \<Rightarrow> 0))]"
    unfolding chat
    by (simp add: chat_respond_world get_self_confidence_world start_world_def emit_def
        eval_nat_numeral)
qed

section \<open>Verification: the two latencies\<close>

lemma round_half_even_close: "\<bar>real_of_int (round_half_even y) - y\<bar> \<le> 1 / 2"
proof -
  have "real_of_int \<lfloor>y\<rfloor> \<le> y" "y < real_of_int \<lfloor>y\<rfloor> + 1"
    by linarith+
  then show ?thesis
    by (auto simp: round_half_even_def Let_def)
qed

lemma py_round_2_close: "\<bar>py_round x 2 - x\<bar> \<le> 1 / 200"
proof -
  have "\<bar>real_of_int (round_half_even (x * 100)) - x * 100\<bar> \<le> 1 / 2"
    by (rule round_half_even_close)
  then have "\<bar>real_of_int (round_half_even (x * 100)) / 100 - x\<bar> \<le> 1 / 200"
    by (simp add: abs_le_iff field_simps)
  then show ?thesis
    by (simp add: py_round_def)
qed

lemma envelope_latency_success:
  "envelope_latency (success_envelope env rid t elapsed c r, 200) = Some (JFloat (py_round elapsed 2))"
  by (simp add: envelope_latency_def response_field_def success_envelope_def)

lemma telemetry_latency_success:
  "telemetry_latency evs = [JFloat l]"
  if "submitted_metrics evs = map (series_of tags ts)
        [(''llm.request.latency_ms'', JFloat l), (''llm.self_confidence'', c),
         (''llm.hallucination_risk'', r), (''llm.answer_length'', a), (''llm.token.count'', n)]"
  using that by (simp add: telemetry_latency_def series_of_def)

text \<open>
  Claim C8, amended. In a successful request the \<open>latency_ms\<close> of the response is the
  span from the first clock reading of the handler to the reading taken just before the
  response is built, in milliseconds, rounded to two decimals; the \<open>latency_ms\<close> of
  the telemetry is the span of the primary generation call, in milliseconds, unrounded.
  When the clock readings do not decrease, the full span is at least the generation
  span, and the rounded latency of the response is at least the telemetry latency
  minus 0.005.
\<close>

theorem latency_contract:
  "request_json env = Inr (JDict kvs) \<and> map_of kvs ''prompt'' = Some (JStr p) \<and> p \<noteq> []
   \<and> model_generate env (JStr p) = Inr response \<and> resp_text response = Inr t
   \<longrightarrow> envelope_latency (fst (chat env))
         = Some (JFloat (py_round ((clock_reading env 4 - clock_reading env 0) * 1000) 2))
       \<and> telemetry_latency (trace (snd (chat env)))
         = [JFloat ((clock_reading env 2 - clock_reading env 1) * 1000)]
       \<and> (clock_reading env 0 \<le> clock_reading env 1 \<and> clock_reading env 2 \<le> clock_reading env 4
            \<longrightarrow> (clock_reading env 2 - clock_reading env 1) * 1000
                  \<le> (clock_reading env 4 - clock_reading env 0) * 1000
                \<and> (clock_reading env 2 - clock_reading env 1) * 1000 - 1 / 200
                  \<le> py_round ((clock_reading env 4 - clock_reading env 0) * 1000) 2)"
proof (intro impI conjI)
  assume h: "request_json env = Inr (JDict kvs) \<and> map_of kvs ''prompt'' = Some (JStr p) \<and> p \<noteq> []
   \<and> model_generate env (JStr p) = Inr response \<and> resp_text response = Inr t"
  note run = chat_succeeds [where env = env and kvs = kvs and p = p and response = response
      and t = t, OF _ _ _ _ _ refl refl]
  from h show "envelope_latency (fst (chat env))
         = Some (JFloat (py_round ((clock_reading env 4 - clock_reading env 0) * 1000) 2))"
    by (simp add: run(1) envelope_latency_success)
  from h have "submitted_metrics (trace (snd (chat env)))
      = map (series_of [''model_name:'' @ MODEL_NAME env, ''service:'' @ SERVICE_NAME,
                        ''env:'' @ ENVIRONMENT env] (py_int (clock_reading env 3)))
          [(''llm.request.latency_ms'',
              JFloat ((clock_reading env 2 - clock_reading env 1) * 1000)),
           (''llm.self_confidence'', JFloat (fst (get_self_confidence env (JStr p) t start_world))),
           (''llm.hallucination_risk'',
              JFloat (calculate_hallucination_risk t p
                        (fst (get_self_confidence env (JStr p) t start_world)))),
           (''llm.answer_length'', JInt (int (length (split t)))),
           (''llm.token.count'',
              JInt (case usage_metadata response of Some n \<Rightarrow> n | None \<Rightarrow> 0))]"
    by (intro run(4)) simp_all
  then show "telemetry_latency (trace (snd (chat env)))
         = [JFloat ((clock_reading env 2 - clock_reading env 1) * 1000)]"
    by (rule telemetry_latency_success)
next
  assume m: "clock_reading env 0 \<le> clock_reading env 1 \<and> clock_reading env 2 \<le> clock_reading env 4"
  then show le: "(clock_reading env 2 - clock_reading env 1) * 1000
      \<le> (clock_reading env 4 - clock_reading env 0) * 1000"
    by simp
  have "\<bar>py_round ((clock_reading env 4 - clock_reading env 0) * 1000) 2
      - (clock_reading env 4 - clock_reading env 0) * 1000\<bar> \<le> 1 / 200"
    by (rule py_round_2_close)
  with le show "(clock_reading env 2 - clock_reading env 1) * 1000 - 1 / 200
      \<le> py_round ((clock_reading env 4 - clock_reading env 0) * 1000) 2"
    by linarith
qed

lemma example_request:
  "request_json example_env = Inr (JDict [(''prompt'', JStr example_prompt)])"
  "map_of [(''prompt'', JStr example_prompt)] ''prompt'' = Some (JStr example_prompt)"
  "example_prompt \<noteq> []"
  "model_generate example_env (JStr example_prompt)
     = Inr \<lparr>resp_text = Inr example_hedged_reply, usage_metadata = Some 42\<rparr>"
  "resp_text \<lparr>resp_text = Inr example_hedged_reply, usage_metadata = Some 42\<rparr>
     = Inr example_hedged_reply"
  by (simp_all add: example_env_def example_model_def example_prompt_def)

lemma py_round_1234: "py_round (1234 / 1000) 2 = 123 / 100"
  by (simp add: py_round_def round_half_even_def Let_def)

lemma py_round_100: "py_round 100 2 = 100"
  by (simp add: py_round_def round_half_even_def Let_def)

text \<open>
  Claim C8, as stated, fails: the latency of the response can be below the latency of
  the telemetry. With a clock whose readings coincide before and after a generation of
  1.234 ms, the response reports \<open>round(1.234, 2) = 1.23\<close>; with a wall clock that is
  set back after a generation of 500 ms, the response reports 100.
\<close>

theorem envelope_latency_below_telemetry_counterexample:
  "envelope_latency (fst (chat rounding_env)) = Some (JFloat (123 / 100))
   \<and> telemetry_latency (trace (snd (chat rounding_env))) = [JFloat (1234 / 1000)]
   \<and> (123 / 100 :: real) < 1234 / 1000
   \<and> envelope_latency (fst (chat clock_set_back_env)) = Some (JFloat 100)
   \<and> telemetry_latency (trace (snd (chat clock_set_back_env))) = [JFloat 500]
   \<and> (100 :: real) < 500"
proof -
  have r: "request_json rounding_env = Inr (JDict [(''prompt'', JStr example_prompt)])"
    "model_generate rounding_env (JStr example_prompt)
       = Inr \<lparr>resp_text = Inr example_hedged_reply, usage_metadata = Some 42\<rparr>"
    using example_request by (simp_all add: rounding_env_def)
  have s: "request_json clock_set_back_env = Inr (JDict [(''prompt'', JStr example_prompt)])"
    "model_generate clock_set_back_env (JStr example_prompt)
       = Inr \<lparr>resp_text = Inr example_hedged_reply, usage_metadata = Some 42\<rparr>"
    using example_request by (simp_all add: clock_set_back_env_def)
  note run_r = chat_succeeds [OF r(1) example_request(2,3) r(2) example_request(5) refl refl]
  note run_s = chat_succeeds [OF s(1) example_request(2,3) s(2) example_request(5) refl refl]
  have span_r: "(clock_reading rounding_env 4 - clock_reading rounding_env 0) * 1000 = 1234 / 1000"
    "(clock_reading rounding_env 2 - clock_reading rounding_env 1) * 1000 = 1234 / 1000"
    by (simp_all add: rounding_env_def)
  have span_s: "(clock_reading clock_set_back_env 4 - clock_reading clock_set_back_env 0) * 1000 = 100"
    "(clock_reading clock_set_back_env 2 - clock_reading clock_set_back_env 1) * 1000 = 500"
    by (simp_all add: clock_set_back_env_def)
  have 1: "envelope_latency (fst (chat rounding_env)) = Some (JFloat (123 / 100))"
    by (simp only: run_r(1) envelope_latency_success span_r py_round_1234)
  have 2: "telemetry_latency (trace (snd (chat rounding_env))) = [JFloat (1234 / 1000)]"
    using telemetry_latency_success [OF run_r(4)] by (simp only: span_r)
  have 3: "envelope_latency (fst (chat clock_set_back_env)) = Some (JFloat 100)"
    by (simp only: run_s(1) envelope_latency_success span_s py_round_100)
  have 4: "telemetry_latency (trace (snd (chat clock_set_back_env))) = [JFloat 500]"
    using telemetry_latency_success [OF run_s(4)] by (simp only: span_s)
  from 1 2 3 4 show ?thesis by simp
qed

theorem latency_contract_witness:
  "envelope_latency (fst (chat example_env)) = Some (JFloat 2000)
   \<and> telemetry_latency (trace (snd (chat example_env))) = [JFloat 500]
   \<and> clock_reading example_env 0 \<le> clock_reading example_env 1
   \<and> clock_reading example_env 2 \<le> clock_reading example_env 4
   \<and> (500 :: real) - 1 / 200 \<le> 2000"
proof -
  have h: "request_json example_env = Inr (JDict [(''prompt'', JStr example_prompt)])
     \<and> map_of [(''prompt'', JStr example_prompt)] ''prompt'' = Some (JStr example_prompt)
     \<and> example_prompt \<noteq> []
     \<and> model_generate example_env (JStr example_prompt)
         = Inr \<lparr>resp_text = Inr example_hedged_reply, usage_metadata = Some 42\<rparr>
     \<and> resp_text \<lparr>resp_text = Inr example_hedged_reply, usage_metadata = Some 42\<rparr>
         = Inr example_hedged_reply"
    using example_request by simp
  have m: "clock_reading example_env 0 \<le> clock_reading example_env 1
     \<and> clock_reading example_env 2 \<le> clock_reading example_env 4"
    by (simp add: example_env_def)
  have e: "(clock_reading example_env 4 - clock_reading example_env 0) * 1000 = 2000"
    "(clock_reading example_env 2 - clock_reading example_env 1) * 1000 = 500"
    by (simp_all add: example_env_def)
  have r: "py_round 2000 2 = 2000"
    by (simp add: py_round_def round_half_even_def Let_def)
  from latency_contract [of example_env "[(''prompt'', JStr example_prompt)]" example_prompt
      "\<lparr>resp_text = Inr example_hedged_reply, usage_metadata = Some 42\<rparr>" example_hedged_reply]
    h m
  have "envelope_latency (fst (chat example_env))
         = Some (JFloat (py_round ((clock_reading example_env 4 - clock_reading example_env 0) * 1000) 2))
       \<and> telemetry_latency (trace (snd (chat example_env)))
         = [JFloat ((clock_reading example_env 2 - clock_reading example_env 1) * 1000)]
       \<and> (clock_reading example_env 2 - clock_reading example_env 1) * 1000 - 1 / 200
           \<le> py_round ((clock_reading example_env 4 - clock_reading example_env 0) * 1000) 2"
    by blast
  then have "envelope_latency (fst (chat example_env)) = Some (JFloat 2000)
       \<and> telemetry_latency (trace (snd (chat example_env))) = [JFloat 500]
       \<and> (500 :: real) - 1 / 200 \<le> 2000"
    by (simp only: e r)
  with m show ?thesis by blast
qed

section \<open>Verification: the request id\<close>

lemma fmt_uuid: "fmt (env\<lparr>uuid4 := u\<rparr>) v = fmt env v"
  by (cases v) (simp_all add: fmt_def)

lemma confidence_prompt_uuid:
  "confidence_prompt (env\<lparr>uuid4 := u\<rparr>) p a = confidence_prompt env p a"
  by (simp add: confidence_prompt_def fmt_uuid)

lemma get_self_confidence_uuid:
  "get_self_confidence (env\<lparr>uuid4 := u\<rparr>) p a w = get_self_confidence env p a w"
  by (simp add: get_self_confidence_def generate_content_def confidence_prompt_uuid)

lemma chat_respond_uuid:
  "snd (fst (chat_respond (env\<lparr>uuid4 := u\<rparr>) rid' st p response t c r ls le w)) = 200"
  "snd (fst (chat_respond env rid st p response t c r ls le w)) = 200"
  "clock (snd (chat_respond (env\<lparr>uuid4 := u\<rparr>) rid' st p response t c r ls le w))
     = clock (snd (chat_respond env rid st p response t c r ls le w))"
  "submitted_metrics (trace (snd (chat_respond (env\<lparr>uuid4 := u\<rparr>) rid' st p response t c r ls le w)))
     = submitted_metrics (trace (snd (chat_respond env rid st p response t c r ls le w)))"
  by (simp_all add: chat_respond_fst chat_respond_world)

lemma chat_try_uuid:
  "outcome (fst (chat_try (env\<lparr>uuid4 := u\<rparr>) rid' st w)) = outcome (fst (chat_try env rid st w))
   \<and> clock (snd (chat_try (env\<lparr>uuid4 := u\<rparr>) rid' st w)) = clock (snd (chat_try env rid st w))
   \<and> submitted_metrics (trace (snd (chat_try (env\<lparr>uuid4 := u\<rparr>) rid' st w)))
       = submitted_metrics (trace (snd (chat_try env rid st w)))"
  by (simp add: chat_try_def time_time_def generate_content_def get_self_confidence_uuid
      chat_respond_uuid outcome_def case_prod_beta Let_def split: sum.splits json.splits)

lemma chat_metrics_unfold:
  "submitted_metrics (trace (snd (chat env))) =
     (let tried = chat_try env (uuid4 env) (clock_reading env 0) start_world
      in case outcome (fst tried) of
           Inr status \<Rightarrow> submitted_metrics (trace (snd tried))
         | Inl e \<Rightarrow> submitted_metrics (trace (snd tried))
                     @ error_series env (py_int (clock_reading env (Suc (clock (snd tried))))))"
  by (simp add: chat_unfold chat_except_world outcome_def Let_def split: sum.splits)

lemma chat_metrics_uuid:
  "submitted_metrics (trace (snd (chat (env\<lparr>uuid4 := u\<rparr>))))
     = submitted_metrics (trace (snd (chat env)))"
proof -
  have "error_series (env\<lparr>uuid4 := u\<rparr>) ts = error_series env ts" for ts
    by (simp add: error_series_def)
  then show ?thesis
    using chat_try_uuid [where env = env and u = u and rid' = u and rid = "uuid4 env"
        and st = "clock_reading env 0" and w = start_world]
    by (simp add: chat_metrics_unfold Let_def split: sum.splits)
qed

lemma log_item_request_id:
  "map_of (log_attributes (log_item env ((''request_id'', JStr rid) # d))) ''request_id''
     = Some (JStr rid)"
  "log_message (log_item env ((''request_id'', JStr rid) # d))
     = ''LLM request completed: request_id='' @ rid"
  by (simp_all add: log_item_def Let_def dict_get_def fmt_def)

lemma log_item_success:
  "map_of (log_attributes (log_item env (success_log_data env rid p l r c a))) ''request_id''
     = Some (JStr rid)"
  "log_message (log_item env (success_log_data env rid p l r c a))
     = ''LLM request completed: request_id='' @ rid"
  unfolding success_log_data_def by (rule log_item_request_id)+

lemma log_item_error:
  "map_of (log_attributes (log_item env (error_data rid e l))) ''request_id'' = Some (JStr rid)"
  "log_message (log_item env (error_data rid e l)) = ''LLM request completed: request_id='' @ rid"
  unfolding error_data_def by (rule log_item_request_id)+

lemma response_field_envelopes:
  "response_field (success_envelope env rid t l c r, 200) ''request_id'' = Some (JStr rid)"
  "response_field (error_envelope rid e, 500) ''request_id'' = Some (JStr rid)"
  "response_field (input_error, 400) ''request_id'' = None"
  by (simp_all add: response_field_def success_envelope_def error_envelope_def input_error_def)

text \<open>
  Claim C5, amended. Every handled request uses the one id drawn at its start. A
  request answered with status 200 or 500 carries that id in the \<open>request_id\<close> field of
  the response and in its single log entry (as the attribute \<open>request_id\<close> and in the
  message). A request rejected with status 400 has no \<open>request_id\<close> in its response
  and emits nothing. The metric series of a request are the same whatever the id is:
  they do not carry it.
\<close>

theorem request_id_correlation:
  "(status_code (fst (chat env)) = 200 \<or> status_code (fst (chat env)) = 400
      \<or> status_code (fst (chat env)) = 500)
   \<and> (status_code (fst (chat env)) \<noteq> 400 \<longrightarrow>
        response_field (fst (chat env)) ''request_id'' = Some (JStr (uuid4 env))
        \<and> map (\<lambda>item. map_of (log_attributes item) ''request_id'')
              (submitted_logs (trace (snd (chat env)))) = [Some (JStr (uuid4 env))]
        \<and> map log_message (submitted_logs (trace (snd (chat env))))
            = [''LLM request completed: request_id='' @ uuid4 env])
   \<and> (status_code (fst (chat env)) = 400 \<longrightarrow>
        response_field (fst (chat env)) ''request_id'' = None
        \<and> submitted_logs (trace (snd (chat env))) = []
        \<and> submitted_metrics (trace (snd (chat env))) = [])
   \<and> submitted_metrics (trace (snd (chat (env\<lparr>uuid4 := u\<rparr>))))
        = submitted_metrics (trace (snd (chat env)))"
proof -
  let ?tried = "chat_try env (uuid4 env) (clock_reading env 0) start_world"
  let ?P = "\<lambda>out.
     (status_code (fst out) = 200 \<or> status_code (fst out) = 400 \<or> status_code (fst out) = 500)
   \<and> (status_code (fst out) \<noteq> 400 \<longrightarrow>
        response_field (fst out) ''request_id'' = Some (JStr (uuid4 env))
        \<and> map (\<lambda>item. map_of (log_attributes item) ''request_id'')
              (submitted_logs (trace (snd out))) = [Some (JStr (uuid4 env))]
        \<and> map log_message (submitted_logs (trace (snd out)))
            = [''LLM request completed: request_id='' @ uuid4 env])
   \<and> (status_code (fst out) = 400 \<longrightarrow>
        response_field (fst out) ''request_id'' = None
        \<and> submitted_logs (trace (snd out)) = []
        \<and> submitted_metrics (trace (snd out)) = [])"
  from chat_try_outcome [of env "uuid4 env" "clock_reading env 0" start_world]
  consider
      (rejected) "fst ?tried = Inr (input_error, 400)" "snd ?tried = start_world"
    | (raised) e where "fst ?tried = Inl e"
        "submitted_logs (trace (snd ?tried)) = submitted_logs (trace start_world)"
    | (answered) kvs p response t where "request_json env = Inr (JDict kvs)"
        "map_of kvs ''prompt'' = Some (JStr p)" "p \<noteq> []"
        "model_generate env (JStr p) = Inr response" "resp_text response = Inr t"
    by blast
  then have "?P (chat env)"
  proof cases
    case rejected
    then have "chat env = ((input_error, 400), start_world)"
      by (simp add: chat_unfold)
    then show ?thesis
      by (simp add: status_code_def response_field_envelopes start_world_def)
  next
    case raised
    then have c: "chat env = chat_except env (uuid4 env) (clock_reading env 0) e (snd ?tried)"
      by (simp add: chat_unfold)
    have none: "submitted_logs (trace (snd ?tried)) = []"
      using raised(2) by (simp add: start_world_def)
    show ?thesis
      unfolding c
      by (simp add: status_code_def chat_except_fst chat_except_world none
          response_field_envelopes log_item_error)
  next
    case answered
    note run = chat_succeeds [OF answered refl refl]
    show ?thesis
      by (simp add: status_code_def run(1) run(3) response_field_envelopes log_item_success)
  qed
  then show ?thesis
    using chat_metrics_uuid [where env = env and u = u] by blast
qed

lemma series_strings_series_of:
  "series_strings (series_of tags ts (n, JFloat x)) = n # tags @ [SERVICE_NAME, ''service'']"
  "series_strings (series_of tags ts (n, JInt i)) = n # tags @ [SERVICE_NAME, ''service'']"
  by (simp_all add: series_strings_def series_of_def)

lemma example_strings_free_of_id:
  "\<not> list_ex (py_in ''123e4567-e89b-42d3-a456-426614174000'')
       [''llm.request.latency_ms'', ''llm.self_confidence'', ''llm.hallucination_risk'',
        ''llm.answer_length'', ''llm.token.count'', ''model_name:gemini-2.5-flash'',
        ''service:llm-observability-service'', ''env:dev'', ''llm-observability-service'',
        ''service'']"
  by code_simp

text \<open>
  Claim C5, as stated, fails: in a successful request the response carries the request
  id, and none of the five metric series handed to the sink mentions it.
\<close>

theorem metrics_lack_request_id_counterexample:
  "status_code (fst (chat example_env)) = 200
   \<and> response_field (fst (chat example_env)) ''request_id'' = Some (JStr (uuid4 example_env))
   \<and> map ms_metric (submitted_metrics (trace (snd (chat example_env))))
       = [''llm.request.latency_ms'', ''llm.self_confidence'', ''llm.hallucination_risk'',
          ''llm.answer_length'', ''llm.token.count'']
   \<and> \<not> list_ex (mentions (uuid4 example_env)) (submitted_metrics (trace (snd (chat example_env))))"
proof -
  note run = chat_succeeds [OF example_request refl refl]
  have cfg: "uuid4 example_env = ''123e4567-e89b-42d3-a456-426614174000''"
    "MODEL_NAME example_env = ''gemini-2.5-flash''" "ENVIRONMENT example_env = ''dev''"
    by (simp_all add: example_env_def)
  have 1: "status_code (fst (chat example_env)) = 200
     \<and> response_field (fst (chat example_env)) ''request_id'' = Some (JStr (uuid4 example_env))"
    by (simp add: run(1) status_code_def response_field_envelopes)
  have 2: "map ms_metric (submitted_metrics (trace (snd (chat example_env))))
       = [''llm.request.latency_ms'', ''llm.self_confidence'', ''llm.hallucination_risk'',
          ''llm.answer_length'', ''llm.token.count'']"
    by (simp add: run(4) series_of_def)
  have 3: "\<not> list_ex (mentions (uuid4 example_env))
      (submitted_metrics (trace (snd (chat example_env))))"
    using example_strings_free_of_id
    by (simp add: run(4) mentions_def series_strings_series_of cfg SERVICE_NAME_def)
  from 1 2 3 show ?thesis by blast
qed

theorem request_id_correlation_witness:
  "status_code (fst (chat example_env)) = 200
   \<and> response_field (fst (chat example_env)) ''request_id''
       = Some (JStr ''123e4567-e89b-42d3-a456-426614174000'')
   \<and> map log_message (submitted_logs (trace (snd (chat example_env))))
       = [''LLM request completed: request_id=123e4567-e89b-42d3-a456-426614174000'']
   \<and> status_code (fst (chat empty_prompt_env)) = 400
   \<and> response_field (fst (chat empty_prompt_env)) ''request_id'' = None
   \<and> status_code (fst (chat array_body_env)) = 500
   \<and> response_field (fst (chat array_body_env)) ''request_id''
       = Some (JStr ''123e4567-e89b-42d3-a456-426614174000'')
   \<and> submitted_metrics (trace (snd (chat (example_env\<lparr>uuid4 := ''another-id''\<rparr>))))
       = submitted_metrics (trace (snd (chat example_env)))"
proof -
  have cfg: "uuid4 example_env = ''123e4567-e89b-42d3-a456-426614174000''"
    "uuid4 array_body_env = ''123e4567-e89b-42d3-a456-426614174000''"
    by (simp_all add: example_env_def array_body_env_def)
  have s200: "status_code (fst (chat example_env)) = 200"
    by (simp add: chat_succeeds(1) [OF example_request refl refl] status_code_def)
  have "request_json empty_prompt_env = Inr (JDict [(''prompt'', JStr [])])"
    by (simp add: empty_prompt_env_def)
  then have "chat_try empty_prompt_env (uuid4 empty_prompt_env) (clock_reading empty_prompt_env 0)
      start_world = (Inr (input_error, 400), start_world)"
    by (rule chat_try_rejects) simp
  then have s400: "status_code (fst (chat empty_prompt_env)) = 400"
    by (simp add: chat_unfold status_code_def)
  have "request_json array_body_env = Inr (JList [JStr ''Rain?''])"
    by (simp add: array_body_env_def)
  then have "chat_try array_body_env (uuid4 array_body_env) (clock_reading array_body_env 0)
      start_world = (Inl (no_attribute (JList [JStr ''Rain?'']) ''get''), start_world)"
    by (rule chat_try_not_dict) simp
  then have s500: "status_code (fst (chat array_body_env)) = 500"
    by (simp add: chat_unfold chat_except_fst status_code_def)
  from request_id_correlation [where env = example_env and u = "''another-id''"] s200
    request_id_correlation [where env = empty_prompt_env and u = "''another-id''"] s400
    request_id_correlation [where env = array_body_env and u = "''another-id''"] s500
  show ?thesis
    by (simp add: cfg)
qed

end
